theory Spec2Isabelle
  imports Main
begin

section \<open>Values of the program\<close>

text \<open>
  The values that \<^verbatim>\<open>src/lib/dataFetcher.js\<close> handles are parsed JSON documents and
  the object literals it builds from them. An object is the list of its own properties in
  the order \<^verbatim>\<open>Object.keys\<close> reports them, with distinct keys; reading a property takes
  the first pair with that key. \<open>JUndefined\<close> is what reading a missing property gives.

  A number is a double. \<open>JNum i\<close> is the number that the integer numeral \<open>i\<close> denotes,
  which is the double nearest to \<open>i\<close>; numbers with a fraction are not embedded. Strings
  are lists of 8-bit characters; only the letters of ASCII change case.
\<close>

datatype json =
    JUndefined
  | JNull
  | JBool bool
  | JNum int
  | JStr string
  | JArr "json list"
  | JObj "(string \<times> json) list"

type_synonym obj = "(string \<times> json) list"

text \<open>
  What a number is after \<^verbatim>\<open>ToNumber\<close>, as far as \<^verbatim>\<open>formatUptime\<close> meets it:
  \<^verbatim>\<open>NaN\<close>, an infinity, or a finite double whose value is the integer given.
\<close>

datatype jsnum = NaN | PInf | NInf | Fin int

datatype error =
    TypeError
  | AxiosError
  | MqttError
  | NotEmbedded

subsection \<open>Decimal text of numbers\<close>

definition digit_char :: "nat \<Rightarrow> char" where
  "digit_char d = ''0123456789'' ! d"

fun nat_str :: "nat \<Rightarrow> string" where
  "nat_str n = (if n < 10 then [digit_char n] else nat_str (n div 10) @ [digit_char (n mod 10)])"

declare nat_str.simps [simp del]

subsection \<open>Doubles\<close>

text \<open>
  A finite double is a significand of at most 53 bits times a power of two, and every
  operation returns the double nearest to the exact result, a tie going to the even
  significand. \<open>bit_length n\<close> is the number of binary digits of \<open>n\<close>,
  \<open>round_half_even a c\<close> the integer nearest to \<open>a / c\<close>, and \<open>to_double x\<close> the
  double nearest to the natural number \<open>x\<close> (below the overflow threshold).
\<close>

fun bit_length :: "nat \<Rightarrow> nat" where
  "bit_length n = (if n = 0 then 0 else Suc (bit_length (n div 2)))"

declare bit_length.simps [simp del]

definition round_half_even :: "nat \<Rightarrow> nat \<Rightarrow> nat" where
  "round_half_even a c =
     (let q = a div c; r = a mod c
      in if 2 * r < c then q else if c < 2 * r then q + 1 else if even q then q else q + 1)"

definition to_double :: "nat \<Rightarrow> nat" where
  "to_double x = (let sh = bit_length x - 53 in round_half_even x (2 ^ sh) * 2 ^ sh)"

text \<open>The number an integer numeral denotes: rounded, and infinite from \<open>2^1024\<close> on.\<close>

definition number_value :: "int \<Rightarrow> jsnum" where
  "number_value i =
     (let d = to_double (nat \<bar>i\<bar>)
      in if 2 ^ 1024 \<le> d then (if i < 0 then NInf else PInf)
         else Fin (if i < 0 then - int d else int d))"

text \<open>
  \<^verbatim>\<open>x / c\<close> for a non-negative integer-valued double \<open>a\<close> and a positive integer
  constant \<open>c\<close>. \<open>quot_exp a c\<close> is the binary exponent \<open>e\<close> of the quotient,
  \<open>2^e \<le> a / c < 2^(e+1)\<close>, so the quotient is rounded to a multiple of \<open>2^(e - 52)\<close>.
  \<open>floor_quot\<close> and \<open>ceil_quot\<close> are \<^verbatim>\<open>Math.floor\<close> and \<^verbatim>\<open>Math.ceil\<close> of that
  double. (The quotients of \<^verbatim>\<open>formatUptime\<close> neither overflow nor reach the subnormal
  range.)
\<close>

definition quot_exp :: "nat \<Rightarrow> nat \<Rightarrow> int" where
  "quot_exp a c =
     (let d = int (bit_length a) - int (bit_length c)
      in if (if 0 \<le> d then c * 2 ^ nat d \<le> a else c \<le> a * 2 ^ nat (- d)) then d else d - 1)"

definition floor_quot :: "nat \<Rightarrow> nat \<Rightarrow> nat" where
  "floor_quot a c =
     (if a = 0 then 0
      else let k = quot_exp a c - 52
           in if 0 \<le> k then round_half_even a (c * 2 ^ nat k) * 2 ^ nat k
              else round_half_even (a * 2 ^ nat (- k)) c div 2 ^ nat (- k))"

definition ceil_quot :: "nat \<Rightarrow> nat \<Rightarrow> nat" where
  "ceil_quot a c =
     (if a = 0 then 0
      else let k = quot_exp a c - 52
           in if 0 \<le> k then round_half_even a (c * 2 ^ nat k) * 2 ^ nat k
              else (round_half_even (a * 2 ^ nat (- k)) c + 2 ^ nat (- k) - 1) div 2 ^ nat (- k))"

subsection \<open>Arithmetic of \<^verbatim>\<open>formatUptime\<close>\<close>

text \<open>
  \<^verbatim>\<open>x % c\<close> for a positive integer constant \<open>c\<close>: the remainder of a finite \<open>x\<close> is
  exact and takes the sign of the dividend; the remainder of an infinity is \<^verbatim>\<open>NaN\<close>.
  \<^verbatim>\<open>Math.floor(x / c)\<close>: the quotient is rounded to a double first, then floored; the floor
  of a negative quotient is minus the ceiling of its absolute value. An infinity and
  \<^verbatim>\<open>NaN\<close> pass through.
\<close>

fun js_rem :: "jsnum \<Rightarrow> int \<Rightarrow> jsnum" where
  "js_rem (Fin a) c = Fin (sgn a * (\<bar>a\<bar> mod c))"
| "js_rem x c = NaN"

fun js_floor_div :: "jsnum \<Rightarrow> int \<Rightarrow> jsnum" where
  "js_floor_div (Fin a) c =
     (if 0 \<le> a then Fin (int (floor_quot (nat a) (nat c)))
      else Fin (- int (ceil_quot (nat (- a)) (nat c))))"
| "js_floor_div x c = x"

subsection \<open>The text of a number\<close>

text \<open>
  \<^verbatim>\<open>`${x}`\<close> for a number \<open>x\<close>. The text of a finite double has the fewest decimal
  digits that still denote that double, and among those the digits nearest to it. Below
  \<open>2^53\<close> every integer is a double, so the digits are those of the integer itself.
  From there on, \<open>best_digits v p\<close> looks for a multiple of the power of ten \<open>p\<close> that
  rounds to \<open>v\<close> (one of the two multiples around \<open>v\<close>), \<open>shortest v\<close> takes the first
  one found from the largest power down, and from \<open>10^21\<close> on the digits are written
  with an exponent.
\<close>

definition best_digits :: "nat \<Rightarrow> nat \<Rightarrow> nat option" where
  "best_digits v p =
     (let lo = (v div p) * p; hi = lo + p;
          lo_ok = (to_double lo = v); hi_ok = (to_double hi = v)
      in if lo_ok \<and> hi_ok
         then (if v - lo < hi - v then Some lo
               else if hi - v < v - lo then Some hi
               else if even (v div p) then Some lo else Some hi)
         else if lo_ok then Some lo
         else if hi_ok then Some hi
         else None)"

fun shortest_from :: "nat \<Rightarrow> nat list \<Rightarrow> nat" where
  "shortest_from v [] = v"
| "shortest_from v (p # ps) =
     (case best_digits v p of Some c \<Rightarrow> c | None \<Rightarrow> shortest_from v ps)"

definition shortest :: "nat \<Rightarrow> nat" where
  "shortest v = shortest_from v (map (\<lambda>j. 10 ^ j) (rev [0..<length (nat_str v)]))"

definition exp_str :: "nat \<Rightarrow> string" where
  "exp_str c =
     (let ds = nat_str c;
          sig = rev (dropWhile (\<lambda>d. d = CHR ''0'') (rev ds))
      in hd sig # (if tl sig = [] then [] else CHR ''.'' # tl sig) @ ''e+'' @
         nat_str (length ds - 1))"

definition double_str :: "nat \<Rightarrow> string" where
  "double_str v =
     (if v < 2 ^ 53 then nat_str v
      else let c = shortest v in if c < 10 ^ 21 then nat_str c else exp_str c)"

fun num_str :: "jsnum \<Rightarrow> string" where
  "num_str NaN = ''NaN''"
| "num_str PInf = ''Infinity''"
| "num_str NInf = ''-Infinity''"
| "num_str (Fin i) = (if i < 0 then CHR ''-'' # double_str (nat (- i)) else double_str (nat i))"

text \<open>
  \<^verbatim>\<open>ToNumber\<close>, which \<^verbatim>\<open>/\<close> and \<^verbatim>\<open>%\<close> apply to their operands. The number
  grammar of strings (and of arrays and objects, which convert through their string) can
  give fractions, so these arguments are outside the embedding: \<open>None\<close>.
\<close>

fun toNumber :: "json \<Rightarrow> jsnum option" where
  "toNumber JUndefined = Some NaN"
| "toNumber JNull = Some (Fin 0)"
| "toNumber (JBool b) = Some (Fin (if b then 1 else 0))"
| "toNumber (JNum i) = Some (number_value i)"
| "toNumber (JStr s) = None"
| "toNumber (JArr xs) = None"
| "toNumber (JObj kvs) = None"

text \<open>
  \<^verbatim>\<open>
  function formatUptime(uptimeInSeconds) {
      const days = Math.floor(uptimeInSeconds / (60 * 60 * 24));
      const hours = Math.floor((uptimeInSeconds % (60 * 60 * 24)) / (60 * 60));
      const minutes = Math.floor((uptimeInSeconds % (60 * 60)) / 60);
      const seconds = uptimeInSeconds % 60;
      return `${days} Tage, ${hours} Stunden, ${minutes} Minuten, ${seconds} Sekunden`;
  }
  \<close>
\<close>

definition formatUptimeNum :: "jsnum \<Rightarrow> string" where
  "formatUptimeNum uptimeInSeconds =
     (let days = js_floor_div uptimeInSeconds (60 * 60 * 24);
          hours = js_floor_div (js_rem uptimeInSeconds (60 * 60 * 24)) (60 * 60);
          minutes = js_floor_div (js_rem uptimeInSeconds (60 * 60)) 60;
          seconds = js_rem uptimeInSeconds 60
      in num_str days @ '' Tage, '' @ num_str hours @ '' Stunden, '' @
         num_str minutes @ '' Minuten, '' @ num_str seconds @ '' Sekunden'')"

definition formatUptime :: "json \<Rightarrow> string option" where
  "formatUptime v = map_option formatUptimeNum (toNumber v)"

text \<open>
  The text the specification describes, from the four whole units, each written with the
  decimal digits of the integer.
\<close>

definition uptime_text :: "nat \<Rightarrow> nat \<Rightarrow> nat \<Rightarrow> nat \<Rightarrow> string" where
  "uptime_text D H M S =
     nat_str D @ '' Tage, '' @ nat_str H @ '' Stunden, '' @
     nat_str M @ '' Minuten, '' @ nat_str S @ '' Sekunden''"

subsection \<open>Properties of values\<close>

text \<open>
  The own enumerable properties of a value, in \<^verbatim>\<open>Object.keys\<close> order: the members of an
  object, the elements of an array under their indices, the characters of a string under
  theirs. The other primitives have none.
\<close>

definition index_keys :: "nat \<Rightarrow> string list" where
  "index_keys n = map nat_str [0..<n]"

fun own_props :: "json \<Rightarrow> obj" where
  "own_props (JObj kvs) = kvs"
| "own_props (JArr xs) = zip (index_keys (length xs)) xs"
| "own_props (JStr s) = zip (index_keys (length s)) (map (\<lambda>c. JStr [c]) s)"
| "own_props v = []"

definition obj_get :: "obj \<Rightarrow> string \<Rightarrow> json" where
  "obj_get kvs k = (case map_of kvs k of None \<Rightarrow> JUndefined | Some v \<Rightarrow> v)"

text \<open>
  \<^verbatim>\<open>v.k\<close> and \<^verbatim>\<open>v[k]\<close>: a \<^verbatim>\<open>TypeError\<close> on \<^verbatim>\<open>undefined\<close> and \<^verbatim>\<open>null\<close>, the own
  property otherwise. The program reads the names \<^verbatim>\<open>data\<close>, \<^verbatim>\<open>beacons\<close>,
  \<^verbatim>\<open>nearestGatewayData\<close>, \<^verbatim>\<open>device\<close>, \<^verbatim>\<open>location\<close>, \<^verbatim>\<open>latitude\<close>, \<^verbatim>\<open>longitude\<close>,
  \<^verbatim>\<open>sapLocation\<close>, \<^verbatim>\<open>tempCondition_Low\<close>, \<^verbatim>\<open>tempCondition_High\<close>, \<^verbatim>\<open>dynamb\<close>,
  \<^verbatim>\<open>temperature\<close>, \<^verbatim>\<open>uptime\<close> and an own key; none of the fixed names is inherited
  from a prototype, so inherited properties are left out.
\<close>

fun get_prop :: "json \<Rightarrow> string \<Rightarrow> error + json" where
  "get_prop JUndefined k = Inl TypeError"
| "get_prop JNull k = Inl TypeError"
| "get_prop v k = Inr (obj_get (own_props v) k)"

text \<open>\<^verbatim>\<open>Object.keys(v)\<close>.\<close>

fun object_keys :: "json \<Rightarrow> error + string list" where
  "object_keys JUndefined = Inl TypeError"
| "object_keys JNull = Inl TypeError"
| "object_keys v = Inr (map fst (own_props v))"

text \<open>\<^verbatim>\<open>k in v\<close>: a \<^verbatim>\<open>TypeError\<close> unless \<open>v\<close> is an object or an array.\<close>

fun in_op :: "string \<Rightarrow> json \<Rightarrow> error + bool" where
  "in_op k (JObj kvs) = Inr (map_of kvs k \<noteq> None)"
| "in_op k (JArr xs) = Inr (map_of (own_props (JArr xs)) k \<noteq> None)"
| "in_op k v = Inl TypeError"

text \<open>\<^verbatim>\<open>o.k = v\<close> on an object: an existing property keeps its place, a new one goes last.\<close>

definition obj_set :: "obj \<Rightarrow> string \<Rightarrow> json \<Rightarrow> obj" where
  "obj_set kvs k v =
     (if map_of kvs k = None then kvs @ [(k, v)]
      else map (\<lambda>(k', v'). if k' = k then (k', v) else (k', v')) kvs)"

text \<open>Truthiness, and \<^verbatim>\<open>a || b\<close>.\<close>

fun truthy :: "json \<Rightarrow> bool" where
  "truthy JUndefined = False"
| "truthy JNull = False"
| "truthy (JBool b) = b"
| "truthy (JNum i) = (i \<noteq> 0)"
| "truthy (JStr s) = (s \<noteq> [])"
| "truthy (JArr xs) = True"
| "truthy (JObj kvs) = True"

definition js_or :: "json \<Rightarrow> json \<Rightarrow> json" where
  "js_or a b = (if truthy a then a else b)"

text \<open>\<^verbatim>\<open>s.toUpperCase()\<close> on the letters of ASCII.\<close>

definition upper_char :: "char \<Rightarrow> char" where
  "upper_char c =
     (case map_of (zip ''abcdefghijklmnopqrstuvwxyz'' ''ABCDEFGHIJKLMNOPQRSTUVWXYZ'') c of
        None \<Rightarrow> c
      | Some u \<Rightarrow> u)"

definition toUpperCase :: "string \<Rightarrow> string" where
  "toUpperCase s = map upper_char s"

text \<open>
  \<^verbatim>\<open>`${v}`\<close>: the string of a value. An array joins the strings of its elements with
  commas, \<^verbatim>\<open>undefined\<close> and \<^verbatim>\<open>null\<close> elements giving nothing.
\<close>

fun join_comma :: "string list \<Rightarrow> string" where
  "join_comma [] = []"
| "join_comma [s] = s"
| "join_comma (s # t # ss) = s @ '','' @ join_comma (t # ss)"

fun toStr :: "json \<Rightarrow> string" where
  "toStr JUndefined = ''undefined''"
| "toStr JNull = ''null''"
| "toStr (JBool b) = (if b then ''true'' else ''false'')"
| "toStr (JNum i) = num_str (number_value i)"
| "toStr (JStr s) = s"
| "toStr (JArr xs) =
     join_comma (map (\<lambda>x. if x = JUndefined \<or> x = JNull then [] else toStr x) xs)"
| "toStr (JObj kvs) = ''[object Object]''"

subsection \<open>Sequencing of steps that may throw\<close>

definition seq :: "error + 'a \<Rightarrow> ('a \<Rightarrow> error + 'b) \<Rightarrow> error + 'b" where
  "seq m f = (case m of Inl e \<Rightarrow> Inl e | Inr x \<Rightarrow> f x)"

section \<open>Extraction\<close>

text \<open>
  \<^verbatim>\<open>
  function extractBeaconData(beacon) {
      const beaconKey = Object.keys(beacon)[0];
      const beaconData = beacon[beaconKey];
      const data = {
          beacon: beaconKey.toUpperCase(),
          gateway: beaconData.nearestGatewayData.device,
          latitude: beaconData.location.latitude,
          longitude: beaconData.location.longitude,
          sapLocation: beaconData.location.sapLocation,
          tempCondition_Low: beaconData.location.tempCondition_Low,
          tempCondition_High: beaconData.location.tempCondition_High
      };
      if ("dynamb" in beaconData) {
          data.temperature = beaconData.dynamb.temperature;
          data.uptime = formatUptime(beaconData.dynamb.uptime);
      }
      return data;
  }
  \<close>
  \<open>keys[0]\<close> of an empty array is \<^verbatim>\<open>undefined\<close> (\<open>None\<close> here); as a property name it
  reads \<^verbatim>\<open>"undefined"\<close>, and calling \<^verbatim>\<open>toUpperCase\<close> on it throws.
\<close>

definition first_key :: "string list \<Rightarrow> string option" where
  "first_key ks = (case ks of [] \<Rightarrow> None | k # _ \<Rightarrow> Some k)"

definition prop_name :: "string option \<Rightarrow> string" where
  "prop_name k = (case k of None \<Rightarrow> ''undefined'' | Some s \<Rightarrow> s)"

definition call_toUpperCase :: "string option \<Rightarrow> error + string" where
  "call_toUpperCase k = (case k of None \<Rightarrow> Inl TypeError | Some s \<Rightarrow> Inr (toUpperCase s))"

definition path2 :: "json \<Rightarrow> string \<Rightarrow> string \<Rightarrow> error + json" where
  "path2 v a b = seq (get_prop v a) (\<lambda>x. get_prop x b)"

definition add_dynamb :: "json \<Rightarrow> obj \<Rightarrow> error + obj" where
  "add_dynamb beaconData data =
     seq (path2 beaconData ''dynamb'' ''temperature'') (\<lambda>temperature.
     seq (path2 beaconData ''dynamb'' ''uptime'') (\<lambda>uptime.
       case formatUptime uptime of
         None \<Rightarrow> Inl NotEmbedded
       | Some text \<Rightarrow>
           Inr (obj_set (obj_set data ''temperature'' temperature) ''uptime'' (JStr text))))"

definition extractBeaconData :: "json \<Rightarrow> error + obj" where
  "extractBeaconData beacon =
     seq (object_keys beacon) (\<lambda>keys.
     let beaconKey = first_key keys in
     seq (get_prop beacon (prop_name beaconKey)) (\<lambda>beaconData.
     seq (call_toUpperCase beaconKey) (\<lambda>b.
     seq (path2 beaconData ''nearestGatewayData'' ''device'') (\<lambda>gateway.
     seq (path2 beaconData ''location'' ''latitude'') (\<lambda>latitude.
     seq (path2 beaconData ''location'' ''longitude'') (\<lambda>longitude.
     seq (path2 beaconData ''location'' ''sapLocation'') (\<lambda>sapLocation.
     seq (path2 beaconData ''location'' ''tempCondition_Low'') (\<lambda>tempCondition_Low.
     seq (path2 beaconData ''location'' ''tempCondition_High'') (\<lambda>tempCondition_High.
     let data =
       [(''beacon'', JStr b),
        (''gateway'', gateway),
        (''latitude'', latitude),
        (''longitude'', longitude),
        (''sapLocation'', sapLocation),
        (''tempCondition_Low'', tempCondition_Low),
        (''tempCondition_High'', tempCondition_High)] in
     seq (in_op ''dynamb'' beaconData) (\<lambda>has_dynamb.
       if has_dynamb then add_dynamb beaconData data else Inr data))))))))))"

section \<open>The environment and the effects\<close>

text \<open>
  What the program does not decide is a parameter: the outcome of the upstream request
  (\<^verbatim>\<open>response.data\<close>, or the rejection), which events the MQTT client raises, which
  persistence requests succeed (by position in the loop), and what the clock reads at each
  call of \<^verbatim>\<open>getCurrentDateTime\<close>. A request that never answers is not embedded.

  The MQTT client raises \<^verbatim>\<open>connect\<close>, \<^verbatim>\<open>error\<close> and \<^verbatim>\<open>close\<close>, and the first
  \<^verbatim>\<open>error\<close> or \<^verbatim>\<open>close\<close> settles the promise of \<^verbatim>\<open>sendToMqtt\<close>. Up to that point it
  can raise: \<^verbatim>\<open>connect\<close> and, after the handler has ended the client, \<^verbatim>\<open>close\<close>
  (\<open>BrokerAccepts\<close>); \<^verbatim>\<open>close\<close> with no \<^verbatim>\<open>connect\<close> and no \<^verbatim>\<open>error\<close> before it
  (\<open>BrokerClosesEarly\<close>); \<^verbatim>\<open>error\<close> with no \<^verbatim>\<open>connect\<close> before it
  (\<open>BrokerErrors\<close>); \<^verbatim>\<open>connect\<close> and then \<^verbatim>\<open>error\<close> before the close
  (\<open>BrokerErrorsLate\<close>). What the client raises after the promise has settled (a
  reconnection, say) is not embedded.
\<close>

datatype broker = BrokerAccepts | BrokerClosesEarly | BrokerErrors | BrokerErrorsLate

record env =
  get_result :: "error + json"
  broker :: broker
  post_ok :: "nat \<Rightarrow> bool"
  clock :: "nat \<Rightarrow> string"

text \<open>
  Every call that leaves the process is an event. \<open>MqttPublish\<close> carries the topic and the
  object handed to \<^verbatim>\<open>JSON.stringify\<close>; \<open>HttpPost\<close> the object handed to \<^verbatim>\<open>axios.post\<close>;
  \<open>MqttClosed\<close> and \<open>HttpPostDone\<close> are the completions the program awaits.
  \<open>IoOn\<close> is \<^verbatim>\<open>io.on('connection', ...)\<close>, \<open>IoEmit\<close> is \<^verbatim>\<open>io.emit\<close>.
\<close>

datatype event =
    HttpGet
  | LogNoBeacons
  | LogExtracted "obj list"
  | LogError error
  | MqttConnect
  | MqttPublish string obj
  | MqttEnd
  | MqttClosed
  | HttpPost obj
  | HttpPostDone
  | IoOn "obj list"
  | IoEmit string "obj list"

text \<open>
  The world: the events so far, the connection listeners registered on \<^verbatim>\<open>io\<close> (each is
  the closure of one invocation, known by the batch it holds), and the number of clock reads.
\<close>

record world =
  trace :: "event list"
  listeners :: "obj list list"
  ticks :: nat

definition emit :: "event \<Rightarrow> world \<Rightarrow> world" where
  "emit e w = w\<lparr>trace := trace w @ [e]\<rparr>"

definition getCurrentDateTime :: "env \<Rightarrow> world \<Rightarrow> string \<times> world" where
  "getCurrentDateTime en w = (clock en (ticks w), w\<lparr>ticks := Suc (ticks w)\<rparr>)"

section \<open>The MQTT sink\<close>

text \<open>
  \<^verbatim>\<open>
  extractedData.forEach((item) => {
      const deviceTopic = `beacon/${item.gatewayMac}`;
      const beaconData = {
          beacon: item.beacon,
          gateway: item.gateway,
          latitude: item.latitude,
          longitude: item.longitude,
          storageLocation: item.sapLocation,
          tempCondition_Low: item.tempCondition_Low,
          tempCondition_High: item.tempCondition_High,
          currentDateTime: getCurrentDateTime(),
          temperature: item.temperature || 0
      };
      mqttClient.publish(deviceTopic, JSON.stringify(beaconData));
  });
  \<close>
\<close>

definition deviceTopic :: "obj \<Rightarrow> string" where
  "deviceTopic item = ''beacon/'' @ toStr (obj_get item ''gatewayMac'')"

definition mqttBeaconData :: "string \<Rightarrow> obj \<Rightarrow> obj" where
  "mqttBeaconData now item =
     [(''beacon'', obj_get item ''beacon''),
      (''gateway'', obj_get item ''gateway''),
      (''latitude'', obj_get item ''latitude''),
      (''longitude'', obj_get item ''longitude''),
      (''storageLocation'', obj_get item ''sapLocation''),
      (''tempCondition_Low'', obj_get item ''tempCondition_Low''),
      (''tempCondition_High'', obj_get item ''tempCondition_High''),
      (''currentDateTime'', JStr now),
      (''temperature'', js_or (obj_get item ''temperature'') (JNum 0))]"

fun publish_each :: "env \<Rightarrow> obj list \<Rightarrow> world \<Rightarrow> world" where
  "publish_each en [] w = w"
| "publish_each en (item # rest) w =
     (let (now, w1) = getCurrentDateTime en w
      in publish_each en rest (emit (MqttPublish (deviceTopic item) (mqttBeaconData now item)) w1))"

text \<open>
  \<^verbatim>\<open>
  const mqttClient = mqtt.connect(mqttBrokerUrl, mqttOptions);
  return new Promise((resolve, reject) => {
      mqttClient.on("connect", () => { extractedData.forEach(...); mqttClient.end(); });
      mqttClient.on("error", reject);
      mqttClient.on("close", resolve);
  });
  \<close>
  The connection is opened before the promise is built. On \<^verbatim>\<open>connect\<close> the handler
  publishes every record and ends the client. The promise resolves on the first
  \<^verbatim>\<open>close\<close>, wherever it comes from, and rejects on the first \<^verbatim>\<open>error\<close>: a close that
  comes before any \<^verbatim>\<open>connect\<close> resolves it with nothing published and the client not
  ended.
\<close>

definition sendToMqtt :: "env \<Rightarrow> obj list \<Rightarrow> world \<Rightarrow> (error + unit) \<times> world" where
  "sendToMqtt en extractedData w =
     (let w1 = emit MqttConnect w in
      case broker en of
        BrokerAccepts \<Rightarrow>
          (Inr (), emit MqttClosed (emit MqttEnd (publish_each en extractedData w1)))
      | BrokerClosesEarly \<Rightarrow> (Inr (), emit MqttClosed w1)
      | BrokerErrors \<Rightarrow> (Inl MqttError, w1)
      | BrokerErrorsLate \<Rightarrow> (Inl MqttError, emit MqttEnd (publish_each en extractedData w1)))"

section \<open>The persistence sink\<close>

text \<open>
  \<^verbatim>\<open>
  for (let i = 0; i < extractedData.length; i++) {
      const item = extractedData[i];
      const dataToMongoDB = {
          beacon: item.beacon,
          gateway: item.gateway,
          latitude: item.latitude,
          longitude: item.longitude,
          tempConditionLow: item.tempCondition_Low,
          tempConditionHigh: item.tempCondition_High,
          sapLocation: item.sapLocation,
          events: [{
              timestamp: getCurrentDateTime(),
              temperature: item.temperature || 0,
          }],
      };
      await axios.post("http://localhost:3002/api/temperature/addTemp", dataToMongoDB);
  }
  \<close>
  The loop is a recursion on the records that remain, \<open>i\<close> counting the requests made.
  A rejected request throws out of the loop.
\<close>

definition dataToMongoDB :: "string \<Rightarrow> obj \<Rightarrow> obj" where
  "dataToMongoDB now item =
     [(''beacon'', obj_get item ''beacon''),
      (''gateway'', obj_get item ''gateway''),
      (''latitude'', obj_get item ''latitude''),
      (''longitude'', obj_get item ''longitude''),
      (''tempConditionLow'', obj_get item ''tempCondition_Low''),
      (''tempConditionHigh'', obj_get item ''tempCondition_High''),
      (''sapLocation'', obj_get item ''sapLocation''),
      (''events'',
         JArr [JObj [(''timestamp'', JStr now),
                     (''temperature'', js_or (obj_get item ''temperature'') (JNum 0))]])]"

fun sendToMongoDB :: "env \<Rightarrow> obj list \<Rightarrow> nat \<Rightarrow> world \<Rightarrow> (error + unit) \<times> world" where
  "sendToMongoDB en [] i w = (Inr (), w)"
| "sendToMongoDB en (item # rest) i w =
     (let (now, w1) = getCurrentDateTime en w;
          w2 = emit (HttpPost (dataToMongoDB now item)) w1
      in if post_ok en i
         then sendToMongoDB en rest (Suc i) (emit HttpPostDone w2)
         else (Inl AxiosError, w2))"

section \<open>The live-subscriber channel\<close>

text \<open>
  \<^verbatim>\<open>
  io.on('connection', (socket) => {
      io.emit("beaconData", extractedData);
  });
  \<close>
  The invocation registers a listener and emits nothing itself. When a subscriber connects,
  the channel calls every registered listener in turn, and each emits the batch it holds to
  all subscribers.
\<close>

definition io_on_connection :: "obj list \<Rightarrow> world \<Rightarrow> world" where
  "io_on_connection extractedData w =
     emit (IoOn extractedData) (w\<lparr>listeners := listeners w @ [extractedData]\<rparr>)"

definition subscriber_connects :: "world \<Rightarrow> world" where
  "subscriber_connects w = fold (\<lambda>batch. emit (IoEmit ''beaconData'' batch)) (listeners w) w"

section \<open>One invocation\<close>

text \<open>\<^verbatim>\<open>originalBeacons.map(beacon => extractBeaconData(beacon))\<close>: the first throw ends it.\<close>

fun extractAll :: "json list \<Rightarrow> error + obj list" where
  "extractAll [] = Inr []"
| "extractAll (beacon # rest) =
     seq (extractBeaconData beacon) (\<lambda>d. seq (extractAll rest) (\<lambda>ds. Inr (d # ds)))"

text \<open>
  \<^verbatim>\<open>
  const response = await axios.get("http://localhost:3002/api/position/getPosition");
  const responseData = response.data;
  if (!responseData.data || !Array.isArray(responseData.data.beacons)) {
      console.error("No beacons found in the response.");
      return;
  }
  \<close>
  The outcome of the check: a throw, the early return (\<open>None\<close>), or the beacons.
\<close>

definition validate :: "json \<Rightarrow> error + json list option" where
  "validate responseData =
     seq (get_prop responseData ''data'') (\<lambda>d.
       if \<not> truthy d then Inr None
       else seq (get_prop d ''beacons'') (\<lambda>bs.
         case bs of JArr originalBeacons \<Rightarrow> Inr (Some originalBeacons) | _ \<Rightarrow> Inr None))"

text \<open>
  \<^verbatim>\<open>
  const originalBeacons = responseData.data.beacons;
  const extractedData = originalBeacons.map(beacon => extractBeaconData(beacon));
  console.log("extractedData:" ,extractedData );
  await sendToMqtt(extractedData);
  await sendToMongoDB(extractedData, originalBeacons);
  io.on('connection', (socket) => { io.emit("beaconData", extractedData); });
  \<close>
\<close>

definition fan_out :: "env \<Rightarrow> obj list \<Rightarrow> world \<Rightarrow> (error + unit) \<times> world" where
  "fan_out en extractedData w =
     (case sendToMqtt en extractedData w of
        (Inl e, w1) \<Rightarrow> (Inl e, w1)
      | (Inr _, w1) \<Rightarrow>
          (case sendToMongoDB en extractedData 0 w1 of
             (Inl e, w2) \<Rightarrow> (Inl e, w2)
           | (Inr _, w2) \<Rightarrow> (Inr (), io_on_connection extractedData w2)))"

definition try_block :: "env \<Rightarrow> world \<Rightarrow> (error + unit) \<times> world" where
  "try_block en w =
     (let w1 = emit HttpGet w in
      case get_result en of
        Inl e \<Rightarrow> (Inl e, w1)
      | Inr responseData \<Rightarrow>
          (case validate responseData of
             Inl e \<Rightarrow> (Inl e, w1)
           | Inr None \<Rightarrow> (Inr (), emit LogNoBeacons w1)
           | Inr (Some originalBeacons) \<Rightarrow>
               (case extractAll originalBeacons of
                  Inl e \<Rightarrow> (Inl e, w1)
                | Inr extractedData \<Rightarrow>
                    fan_out en extractedData (emit (LogExtracted extractedData) w1))))"

text \<open>
  \<^verbatim>\<open>
  async function fetchDataAndSend(io) {
      try { ... } catch (error) {
          console.error("Error during fetching or sending data:", error);
      }
  }
  \<close>
  How the promise of the invocation settles, and the world it leaves. \<open>None\<close>: the
  invocation met a value outside the embedding.
\<close>

datatype completion = Resolved | Rejected error

definition fetchDataAndSend :: "env \<Rightarrow> world \<Rightarrow> (completion \<times> world) option" where
  "fetchDataAndSend en w =
     (case try_block en w of
        (Inl NotEmbedded, w1) \<Rightarrow> None
      | (Inl e, w1) \<Rightarrow> Some (Resolved, emit (LogError e) w1)
      | (Inr _, w1) \<Rightarrow> Some (Resolved, w1))"

text \<open>The events an invocation adds to the trace.\<close>

definition new_events :: "world \<Rightarrow> world \<Rightarrow> event list" where
  "new_events w w' = drop (length (trace w)) (trace w')"

section \<open>The shape of the upstream response\<close>

text \<open>
  The positioning source answers with
  \<^verbatim>\<open>{ data: { beacons: [ { <beaconId>: { nearestGatewayData: { device }, location: { latitude,
  longitude, sapLocation, tempCondition_Low, tempCondition_High }, dynamb?: { temperature,
  uptime } } } ] } }\<close>.
  \<open>response_beacons\<close> is the beacons array at that path, when there is one. An entry is
  well formed when it is an object with a single key whose value is an object holding an
  object under \<^verbatim>\<open>nearestGatewayData\<close>, an object under \<^verbatim>\<open>location\<close> and, when it has a
  \<^verbatim>\<open>dynamb\<close> member, an object there whose uptime is a non-negative number.
  \<open>entry_key\<close> is the key of an entry.
\<close>

definition response_beacons :: "json \<Rightarrow> json list option" where
  "response_beacons body =
     (case body of
        JObj members \<Rightarrow>
          (case map_of members ''data'' of
             Some (JObj d) \<Rightarrow>
               (case map_of d ''beacons'' of Some (JArr bs) \<Rightarrow> Some bs | _ \<Rightarrow> None)
           | _ \<Rightarrow> None)
      | _ \<Rightarrow> None)"

fun is_object :: "json option \<Rightarrow> bool" where
  "is_object (Some (JObj kvs)) = True"
| "is_object _ = False"

fun wf_dynamb :: "json option \<Rightarrow> bool" where
  "wf_dynamb None = True"
| "wf_dynamb (Some (JObj kvs)) = (case map_of kvs ''uptime'' of Some (JNum n) \<Rightarrow> 0 \<le> n | _ \<Rightarrow> False)"
| "wf_dynamb _ = False"

fun wf_entry :: "json \<Rightarrow> bool" where
  "wf_entry (JObj [(k, JObj kvs)]) =
     (is_object (map_of kvs ''nearestGatewayData'') \<and> is_object (map_of kvs ''location'') \<and>
      wf_dynamb (map_of kvs ''dynamb''))"
| "wf_entry _ = False"

definition wf_response :: "json \<Rightarrow> bool" where
  "wf_response r = (case response_beacons r of None \<Rightarrow> False | Some bs \<Rightarrow> list_all wf_entry bs)"

fun entry_key :: "json \<Rightarrow> string" where
  "entry_key (JObj ((k, v) # rest)) = k"
| "entry_key _ = []"

text \<open>The members of a record extracted from an entry without live telemetry.\<close>

definition record_keys :: "string list" where
  "record_keys =
     [''beacon'', ''gateway'', ''latitude'', ''longitude'', ''sapLocation'',
      ''tempCondition_Low'', ''tempCondition_High'']"

section \<open>The events of the sinks, by record\<close>

text \<open>
  The publishes of the MQTT handler, one per record, the clock read at \<open>t\<close>, \<open>t + 1\<close>, ...;
  the events of the MQTT step for each behaviour of the client, the number of clock reads
  it makes, and whether its promise resolves.
\<close>

definition publishes :: "env \<Rightarrow> nat \<Rightarrow> obj list \<Rightarrow> event list" where
  "publishes en t items =
     map (\<lambda>(j, item). MqttPublish (deviceTopic item) (mqttBeaconData (clock en j) item))
       (enumerate t items)"

definition mqtt_events :: "env \<Rightarrow> nat \<Rightarrow> obj list \<Rightarrow> event list" where
  "mqtt_events en t items =
     (case broker en of
        BrokerAccepts \<Rightarrow> [MqttConnect] @ publishes en t items @ [MqttEnd, MqttClosed]
      | BrokerClosesEarly \<Rightarrow> [MqttConnect, MqttClosed]
      | BrokerErrors \<Rightarrow> [MqttConnect]
      | BrokerErrorsLate \<Rightarrow> [MqttConnect] @ publishes en t items @ [MqttEnd])"

definition mqtt_ticks :: "env \<Rightarrow> obj list \<Rightarrow> nat" where
  "mqtt_ticks en items =
     (case broker en of
        BrokerAccepts \<Rightarrow> length items
      | BrokerClosesEarly \<Rightarrow> 0
      | BrokerErrors \<Rightarrow> 0
      | BrokerErrorsLate \<Rightarrow> length items)"

definition mqtt_resolves :: "env \<Rightarrow> bool" where
  "mqtt_resolves en = (broker en = BrokerAccepts \<or> broker en = BrokerClosesEarly)"

text \<open>
  The persistence loop numbers its requests from \<open>i\<close>. \<open>accepted\<close> are the numbered
  records up to the first request the store rejects, \<open>pending_posts\<close> the ones from that
  request on. Request \<open>j\<close> reads the clock at \<open>c + j\<close>. An accepted request is followed by
  its completion. After the accepted ones comes the registration of the listener, when
  nothing is pending, or the rejected request and the error that the handler logs.
\<close>

definition accepted :: "env \<Rightarrow> nat \<Rightarrow> obj list \<Rightarrow> (nat \<times> obj) list" where
  "accepted en i items = takeWhile (\<lambda>(j, item). post_ok en j) (enumerate i items)"

definition pending_posts :: "env \<Rightarrow> obj list \<Rightarrow> (nat \<times> obj) list" where
  "pending_posts en items = drop (length (accepted en 0 items)) (enumerate 0 items)"

definition post_request :: "env \<Rightarrow> nat \<Rightarrow> nat \<times> obj \<Rightarrow> event" where
  "post_request en c = (\<lambda>(i, item). HttpPost (dataToMongoDB (clock en (c + i)) item))"

definition awaited_posts :: "env \<Rightarrow> nat \<Rightarrow> (nat \<times> obj) list \<Rightarrow> event list" where
  "awaited_posts en c ps = concat (map (\<lambda>p. [post_request en c p, HttpPostDone]) ps)"

definition persistence_events :: "env \<Rightarrow> nat \<Rightarrow> obj list \<Rightarrow> event list" where
  "persistence_events en c items =
     awaited_posts en c (accepted en 0 items) @
     (case pending_posts en items of
        [] \<Rightarrow> [IoOn items]
      | p # ps \<Rightarrow> [post_request en c p, LogError AxiosError])"

text \<open>
  The events of one invocation, when it stays inside the embedding; and the batches
  that a list of events broadcasts to the subscribers.
\<close>

definition run_events :: "env \<Rightarrow> world \<Rightarrow> event list option" where
  "run_events en w =
     (case fetchDataAndSend en w of None \<Rightarrow> None | Some (c, w') \<Rightarrow> Some (new_events w w'))"

fun broadcasts :: "event list \<Rightarrow> obj list list" where
  "broadcasts [] = []"
| "broadcasts (IoEmit name batch # es) = batch # broadcasts es"
| "broadcasts (e # es) = broadcasts es"

text \<open>
  The batch for which an invocation registers a connection listener: the extracted records,
  when the response validates, extraction succeeds, the promise of the MQTT step resolves
  and no persistence request is rejected; none otherwise.
\<close>

definition registered_batches :: "env \<Rightarrow> obj list list" where
  "registered_batches en =
     (case get_result en of
        Inl e \<Rightarrow> []
      | Inr r \<Rightarrow>
          (case validate r of
             Inr (Some bs) \<Rightarrow>
               (case extractAll bs of
                  Inl e \<Rightarrow> []
                | Inr recs \<Rightarrow>
                    if mqtt_resolves en \<and> pending_posts en recs = [] then [recs] else [])
           | _ \<Rightarrow> []))"

section \<open>Example inputs\<close>

text \<open>
  A beacon with live telemetry and one without, the records extraction returns for them,
  a response holding given entries, an environment in which every sink succeeds, and the
  world before the first invocation.
\<close>

definition example_entry :: json where
  "example_entry =
     JObj [(''ac233fa2'', JObj
       [(''nearestGatewayData'', JObj [(''device'', JStr ''gw1'')]),
        (''location'', JObj
          [(''latitude'', JNum 47), (''longitude'', JNum 8), (''sapLocation'', JStr ''L1''),
           (''tempCondition_Low'', JNum 2), (''tempCondition_High'', JNum 8)]),
        (''dynamb'', JObj [(''temperature'', JNum 5), (''uptime'', JNum 90061)])])]"

definition example_entry_plain :: json where
  "example_entry_plain =
     JObj [(''bb01'', JObj
       [(''nearestGatewayData'', JObj [(''device'', JStr ''gw2'')]),
        (''location'', JObj
          [(''latitude'', JNum 46), (''longitude'', JNum 7), (''sapLocation'', JStr ''L2''),
           (''tempCondition_Low'', JNum 2), (''tempCondition_High'', JNum 8)])])]"

definition example_record :: obj where
  "example_record =
     [(''beacon'', JStr ''AC233FA2''), (''gateway'', JStr ''gw1''), (''latitude'', JNum 47),
      (''longitude'', JNum 8), (''sapLocation'', JStr ''L1''), (''tempCondition_Low'', JNum 2),
      (''tempCondition_High'', JNum 8), (''temperature'', JNum 5),
      (''uptime'', JStr ''1 Tage, 1 Stunden, 1 Minuten, 1 Sekunden'')]"

definition example_record_plain :: obj where
  "example_record_plain =
     [(''beacon'', JStr ''BB01''), (''gateway'', JStr ''gw2''), (''latitude'', JNum 46),
      (''longitude'', JNum 7), (''sapLocation'', JStr ''L2''), (''tempCondition_Low'', JNum 2),
      (''tempCondition_High'', JNum 8)]"

definition example_response :: "json list \<Rightarrow> json" where
  "example_response bs = JObj [(''data'', JObj [(''beacons'', JArr bs)])]"

definition example_env :: "json \<Rightarrow> env" where
  "example_env body =
     \<lparr>get_result = Inr body, broker = BrokerAccepts, post_ok = (\<lambda>i. True),
      clock = (\<lambda>n. ''2024-05-01 12:00:0'' @ nat_str n)\<rparr>"

definition initial_world :: world where
  "initial_world = \<lparr>trace = [], listeners = [], ticks = 0\<rparr>"

section \<open>Uptime formatting\<close>

lemma js_rem_nonneg: "0 \<le> a \<Longrightarrow> 0 < c \<Longrightarrow> js_rem (Fin a) c = Fin (a mod c)"
  by (cases "a = 0") simp_all

lemma bit_length_le: "n < 2 ^ k \<Longrightarrow> bit_length n \<le> k"
proof (induction n arbitrary: k rule: bit_length.induct)
  case (1 n)
  show ?case
  proof (cases "n = 0")
    case True
    then show ?thesis by (simp add: bit_length.simps)
  next
    case False
    with "1.prems" obtain k' where k: "k = Suc k'"
      by (cases k) auto
    with "1.prems" have "n div 2 < 2 ^ k'"
      by auto
    from "1.IH" [OF False this] False k show ?thesis
      by (subst bit_length.simps) simp
  qed
qed

lemma lt_pow_bit_length: "n < 2 ^ bit_length n"
proof (induction n rule: bit_length.induct)
  case (1 n)
  show ?case
  proof (cases "n = 0")
    case True
    then show ?thesis by (simp add: bit_length.simps)
  next
    case False
    from "1.IH" [OF False] have "n div 2 < 2 ^ bit_length (n div 2)" .
    then have "n < 2 * 2 ^ bit_length (n div 2)"
      by linarith
    with False show ?thesis
      by (subst bit_length.simps) simp
  qed
qed

lemma round_half_even_one: "round_half_even a (Suc 0) = a"
  by (simp add: round_half_even_def)

lemma to_double_small: "n < 2 ^ 53 \<Longrightarrow> to_double n = n"
  using bit_length_le [of n 53] by (simp add: to_double_def round_half_even_one)

lemma round_half_even_lower: "a div c \<le> round_half_even a c"
  by (simp add: round_half_even_def Let_def)

lemma round_half_even_upper: "0 < c \<Longrightarrow> 2 * c * round_half_even a c \<le> 2 * a + c"
proof -
  assume c: "0 < c"
  have a: "a = c * (a div c) + a mod c" by simp
  have m: "a mod c < c" using c by simp
  define q where "q = a div c"
  define r where "r = a mod c"
  have aq: "a = c * q + r" and rc: "r < c"
    using a m by (simp_all add: q_def r_def)
  have "2 * c * round_half_even a c \<le> 2 * (c * q + r) + c"
    unfolding round_half_even_def Let_def q_def [symmetric] r_def [symmetric]
    using rc by (auto simp: algebra_simps)
  then show ?thesis using aq by simp
qed

lemma div_of_scaled_rounding:
  assumes c: "0 < c" and P: "c < 2 * P"
  shows "round_half_even (a * P) c div P = a div c"
proof -
  define q where "q = a div c"
  define M where "M = round_half_even (a * P) c"
  have Ppos: "0 < P" using c P by simp
  have "q * c \<le> a"
    by (simp add: q_def)
  then have "q * c * P \<le> a * P"
    by (rule mult_le_mono1)
  then have "q * P * c \<le> a * P"
    by (simp add: mult.assoc mult.commute mult.left_commute)
  then have "q * P \<le> (a * P) div c"
    using c by (simp add: less_eq_div_iff_mult_less_eq)
  also have "\<dots> \<le> M"
    unfolding M_def by (rule round_half_even_lower)
  finally have lower: "P * q \<le> M"
    by (simp add: mult.commute)
  have "a < Suc q * c"
    using c by (simp add: q_def dividend_less_times_div mult.commute)
  then have "Suc a \<le> Suc q * c"
    by simp
  then have "Suc a * P \<le> Suc q * c * P"
    by (rule mult_le_mono1)
  then have aP: "a * P + P \<le> c * (Suc q * P)"
    by (simp add: algebra_simps)
  have "2 * c * M \<le> 2 * (a * P) + c"
    unfolding M_def using c by (rule round_half_even_upper)
  then have "2 * c * M + 2 * P \<le> 2 * (a * P + P) + c"
    by simp
  also have "\<dots> \<le> 2 * (c * (Suc q * P)) + c"
    using aP by simp
  also have "\<dots> < 2 * (c * (Suc q * P)) + 2 * P"
    using P by simp
  finally have "2 * c * M < 2 * c * (Suc q * P)"
    by simp
  then have upper: "M < P * Suc q"
    by (simp add: mult.commute)
  from lower upper show ?thesis
    unfolding M_def [symmetric] q_def [symmetric] by (rule div_nat_eqI)
qed

lemma bit_length_ge2: "2 \<le> c \<Longrightarrow> 2 \<le> bit_length c"
proof (rule ccontr)
  assume c: "2 \<le> c" and "\<not> 2 \<le> bit_length c"
  then have "bit_length c \<le> 1" by simp
  then have "(2::nat) ^ bit_length c \<le> 2 ^ 1"
    by (rule power_increasing) simp
  with lt_pow_bit_length [of c] c show False by simp
qed

lemma quot_exp_le: "quot_exp a c \<le> int (bit_length a) - int (bit_length c)"
  by (simp add: quot_exp_def Let_def)

lemma floor_quot_exact:
  assumes a: "a < 2 ^ 53" and c: "2 \<le> c"
  shows "floor_quot a c = a div c"
proof (cases "a = 0")
  case True
  then show ?thesis by (simp add: floor_quot_def)
next
  case False
  define k where "k = quot_exp a c - 52"
  define j where "j = nat (- k)"
  have la: "bit_length a \<le> 53"
    using a by (rule bit_length_le)
  have lc: "2 \<le> bit_length c"
    using c by (rule bit_length_ge2)
  have kle: "k \<le> 1 - int (bit_length c)"
    using quot_exp_le [of a c] la by (simp add: k_def)
  with lc have kneg: "\<not> 0 \<le> k"
    by simp
  from kle have "bit_length c \<le> Suc j"
    by (simp add: j_def)
  then have "(2::nat) ^ bit_length c \<le> 2 ^ Suc j"
    by (rule power_increasing) simp
  with lt_pow_bit_length [of c] have P: "c < 2 * 2 ^ j"
    by simp
  have "floor_quot a c = round_half_even (a * 2 ^ j) c div 2 ^ j"
    using False kneg by (simp add: floor_quot_def k_def [symmetric] j_def Let_def)
  also have "\<dots> = a div c"
    using c P by (intro div_of_scaled_rounding) simp_all
  finally show ?thesis .
qed

lemma number_value_small: "0 \<le> s \<Longrightarrow> s < 2 ^ 53 \<Longrightarrow> number_value s = Fin s"
proof -
  assume s: "0 \<le> s" "s < 2 ^ 53"
  then have n: "nat s < 2 ^ 53"
    by (simp add: nat_less_iff)
  have "to_double (nat s) < 2 ^ 1024"
    unfolding to_double_small [OF n] using n by (rule less_trans) simp
  with s show ?thesis
    by (simp add: number_value_def to_double_small [OF n])
qed

lemma js_floor_div_small:
  assumes "0 \<le> a" "a < 2 ^ 53" "2 \<le> c"
  shows "js_floor_div (Fin a) c = Fin (a div c)"
proof -
  have n: "nat a < 2 ^ 53"
    using assms by (simp add: nat_less_iff)
  have c: "2 \<le> nat c"
    using assms by simp
  show ?thesis
    using assms by (simp add: floor_quot_exact [OF n c] zdiv_int)
qed

lemma num_str_small: "0 \<le> a \<Longrightarrow> a < 2 ^ 53 \<Longrightarrow> num_str (Fin a) = nat_str (nat a)"
  by (simp add: double_str_def nat_less_iff)

lemma formatUptime_nat:
  assumes s: "int s < 2 ^ 53"
  shows "formatUptime (JNum (int s)) =
     Some (uptime_text (s div 86400) ((s mod 86400) div 3600) ((s mod 3600) div 60) (s mod 60))"
proof -
  have v: "toNumber (JNum (int s)) = Some (Fin (int s))"
    using s by (simp add: number_value_small)
  have r1: "js_rem (Fin (int s)) 86400 = Fin (int (s mod 86400))"
    by (simp add: js_rem_nonneg zmod_int del: js_rem.simps)
  have r2: "js_rem (Fin (int s)) 3600 = Fin (int (s mod 3600))"
    by (simp add: js_rem_nonneg zmod_int del: js_rem.simps)
  have r3: "js_rem (Fin (int s)) 60 = Fin (int (s mod 60))"
    by (simp add: js_rem_nonneg zmod_int del: js_rem.simps)
  have b1: "int (s mod 86400) < 2 ^ 53" and b2: "int (s mod 3600) < 2 ^ 53"
    and b3: "int (s mod 60) < 2 ^ 53"
    by (rule less_trans [of _ 86400], simp, simp)+
  have d: "js_floor_div (Fin (int s)) 86400 = Fin (int (s div 86400))"
    using s by (simp add: js_floor_div_small zdiv_int del: js_floor_div.simps)
  have h: "js_floor_div (Fin (int (s mod 86400))) 3600 = Fin (int (s mod 86400 div 3600))"
    using b1 by (simp add: js_floor_div_small zdiv_int del: js_floor_div.simps)
  have m: "js_floor_div (Fin (int (s mod 3600))) 60 = Fin (int (s mod 3600 div 60))"
    using b2 by (simp add: js_floor_div_small zdiv_int del: js_floor_div.simps)
  have le: "int (s div 86400) \<le> int s" "int (s mod 86400 div 3600) \<le> int (s mod 86400)"
    "int (s mod 3600 div 60) \<le> int (s mod 3600)"
    by simp_all
  have t: "num_str (Fin (int (s div 86400))) = nat_str (s div 86400)"
    "num_str (Fin (int (s mod 86400 div 3600))) = nat_str (s mod 86400 div 3600)"
    "num_str (Fin (int (s mod 3600 div 60))) = nat_str (s mod 3600 div 60)"
    "num_str (Fin (int (s mod 60))) = nat_str (s mod 60)"
    using s b1 b2 b3 le by (simp_all add: num_str_small del: num_str.simps)
  show ?thesis
    unfolding formatUptime_def formatUptimeNum_def uptime_text_def Let_def v
    by (simp add: r1 r2 r3 d h m t del: js_rem.simps js_floor_div.simps num_str.simps)
qed

lemma nat_str_1: "nat_str (Suc 0) = ''1''"
  by (simp add: nat_str.simps digit_char_def)

lemmas double_simps = number_value_def to_double_def bit_length.simps round_half_even_def
  quot_exp_def floor_quot_def ceil_quot_def

lemmas number_text_simps = double_str_def shortest_def best_digits_def exp_str_def
  nat_str.simps digit_char_def

lemma days_of_2_90: "js_floor_div (Fin (2 ^ 90)) 86400 = Fin 14328009713951159877632"
  by (simp add: double_simps)

lemma days_text_of_2_90: "num_str (Fin 14328009713951159877632) = ''1.432800971395116e+22''"
  by (simp add: double_simps number_text_simps split del: if_split)

lemma formatUptime_2_90:
  "formatUptime (JNum (2 ^ 90)) =
     Some ''1.432800971395116e+22 Tage, 5 Stunden, 37 Minuten, 4 Sekunden''"
proof -
  have n: "(2::int) ^ 90 = 1237940039285380274899124224"
    by simp
  have v: "toNumber (JNum 1237940039285380274899124224) = Some (Fin 1237940039285380274899124224)"
    by (simp add: double_simps)
  have r: "js_rem (Fin 1237940039285380274899124224) 86400 = Fin 20224"
    "js_rem (Fin 1237940039285380274899124224) 3600 = Fin 2224"
    "js_rem (Fin 1237940039285380274899124224) 60 = Fin 4"
    by simp_all
  have d: "js_floor_div (Fin 1237940039285380274899124224) 86400 =
      Fin 14328009713951159877632"
    using days_of_2_90 by simp
  have q: "js_floor_div (Fin 20224) 3600 = Fin 5" "js_floor_div (Fin 2224) 60 = Fin 37"
    by (simp_all add: js_floor_div_small del: js_floor_div.simps)
  have t: "num_str (Fin 5) = ''5''" "num_str (Fin 37) = ''37''" "num_str (Fin 4) = ''4''"
    by (simp_all add: double_str_def nat_str.simps digit_char_def)
  show ?thesis
    unfolding formatUptime_def formatUptimeNum_def Let_def n v
    by (simp add: r d q t days_text_of_2_90 del: js_rem.simps js_floor_div.simps num_str.simps)
qed

text \<open>
  C5, as stated, fails: the double \<open>2^90\<close> is a non-negative integer number of seconds,
  and its quotient by 86400 is rounded to a double before it is floored and is written
  with an exponent, so the days of \<^verbatim>\<open>formatUptime\<close> are neither the integer quotient nor
  its decimal digits.
\<close>

theorem formatUptime_large_counterexample:
  "formatUptime (JNum (2 ^ 90)) =
     Some ''1.432800971395116e+22 Tage, 5 Stunden, 37 Minuten, 4 Sekunden'' \<and>
   uptime_text (2 ^ 90 div 86400) ((2 ^ 90 mod 86400) div 3600) ((2 ^ 90 mod 3600) div 60)
       (2 ^ 90 mod 60) =
     ''14328009713951160589110 Tage, 5 Stunden, 37 Minuten, 4 Sekunden'' \<and>
   formatUptime (JNum (2 ^ 90)) \<noteq>
     Some (uptime_text (2 ^ 90 div 86400) ((2 ^ 90 mod 86400) div 3600)
            ((2 ^ 90 mod 3600) div 60) (2 ^ 90 mod 60))"
proof -
  have u: "uptime_text (2 ^ 90 div 86400) ((2 ^ 90 mod 86400) div 3600)
      ((2 ^ 90 mod 3600) div 60) (2 ^ 90 mod 60) =
     ''14328009713951160589110 Tage, 5 Stunden, 37 Minuten, 4 Sekunden''"
    by (simp add: uptime_text_def nat_str.simps digit_char_def)
  show ?thesis
    unfolding u formatUptime_2_90 by simp
qed

text \<open>
  C5 (amended). For every non-negative integer number of seconds \<open>s\<close> below \<open>2^53\<close>,
  \<^verbatim>\<open>formatUptime\<close> returns \<open>D Tage, H Stunden, M Minuten, S Sekunden\<close> with
  \<open>D = s div 86400\<close>, \<open>H = (s mod 86400) div 3600\<close>, \<open>M = (s mod 3600) div 60\<close> and
  \<open>S = s mod 60\<close>, each written in decimal; and 90061 seconds give
  \<open>1 Tage, 1 Stunden, 1 Minuten, 1 Sekunden\<close>.
\<close>

theorem formatUptime_decomposition:
  "(0 \<le> s \<and> s < 2 ^ 53 \<longrightarrow>
      formatUptime (JNum s) =
        Some (uptime_text (nat s div 86400) ((nat s mod 86400) div 3600)
                ((nat s mod 3600) div 60) (nat s mod 60))) \<and>
   formatUptime (JNum 90061) = Some ''1 Tage, 1 Stunden, 1 Minuten, 1 Sekunden''"
proof (intro conjI impI)
  assume "0 \<le> s \<and> s < 2 ^ 53"
  then show "formatUptime (JNum s) =
       Some (uptime_text (nat s div 86400) ((nat s mod 86400) div 3600)
               ((nat s mod 3600) div 60) (nat s mod 60))"
    using formatUptime_nat [of "nat s"] by simp
next
  have "formatUptime (JNum (int 90061)) = Some (uptime_text 1 1 1 1)"
    by (subst formatUptime_nat) simp_all
  then show "formatUptime (JNum 90061) = Some ''1 Tage, 1 Stunden, 1 Minuten, 1 Sekunden''"
    by (simp add: uptime_text_def nat_str_1)
qed

theorem formatUptime_decomposition_witness:
  "(0::int) \<le> 3725 \<and> (3725::int) < 2 ^ 53 \<and>
   formatUptime (JNum 3725) = Some ''0 Tage, 1 Stunden, 2 Minuten, 5 Sekunden''"
proof -
  have "formatUptime (JNum 3725) = Some (uptime_text 0 1 2 5)"
    using formatUptime_decomposition [of 3725] by simp
  then show ?thesis
    by (simp add: uptime_text_def nat_str.simps digit_char_def)
qed

section \<open>Extraction, unfolded\<close>

lemma seq_Inr_iff: "seq m f = Inr y \<longleftrightarrow> (\<exists>x. m = Inr x \<and> f x = Inr y)"
  by (cases m) (simp_all add: seq_def)

lemma seq_Inl_iff: "seq m f = Inl e \<longleftrightarrow> m = Inl e \<or> (\<exists>x. m = Inr x \<and> f x = Inl e)"
  by (cases m) (simp_all add: seq_def)

lemma seq_Inr: "seq (Inr x) f = f x"
  by (simp add: seq_def)

lemma seq_Inl: "seq (Inl e) f = Inl e"
  by (simp add: seq_def)

lemma extract_cons:
  "extractBeaconData (JObj ((k, v) # rest)) =
     seq (path2 v ''nearestGatewayData'' ''device'') (\<lambda>gateway.
     seq (path2 v ''location'' ''latitude'') (\<lambda>latitude.
     seq (path2 v ''location'' ''longitude'') (\<lambda>longitude.
     seq (path2 v ''location'' ''sapLocation'') (\<lambda>sapLocation.
     seq (path2 v ''location'' ''tempCondition_Low'') (\<lambda>tempCondition_Low.
     seq (path2 v ''location'' ''tempCondition_High'') (\<lambda>tempCondition_High.
     seq (in_op ''dynamb'' v) (\<lambda>has_dynamb.
       if has_dynamb
       then add_dynamb v
         [(''beacon'', JStr (toUpperCase k)),
          (''gateway'', gateway),
          (''latitude'', latitude),
          (''longitude'', longitude),
          (''sapLocation'', sapLocation),
          (''tempCondition_Low'', tempCondition_Low),
          (''tempCondition_High'', tempCondition_High)]
       else Inr
         [(''beacon'', JStr (toUpperCase k)),
          (''gateway'', gateway),
          (''latitude'', latitude),
          (''longitude'', longitude),
          (''sapLocation'', sapLocation),
          (''tempCondition_Low'', tempCondition_Low),
          (''tempCondition_High'', tempCondition_High)])))))))"
  by (simp add: extractBeaconData_def first_key_def prop_name_def call_toUpperCase_def
      obj_get_def seq_Inr Let_def cong del: if_weak_cong)

lemma extract_no_keys: "extractBeaconData (JObj []) = Inl TypeError"
  by (simp add: extractBeaconData_def first_key_def prop_name_def call_toUpperCase_def
      obj_get_def seq_Inr seq_Inl Let_def)

lemma path2_object:
  "map_of kvs a = Some (JObj sub) \<Longrightarrow> path2 (JObj kvs) a b = Inr (obj_get sub b)"
  by (simp add: path2_def obj_get_def seq_Inr)

lemma path2_missing:
  "map_of kvs a = None \<Longrightarrow> path2 (JObj kvs) a b = Inl TypeError"
  by (simp add: path2_def obj_get_def seq_Inr)

lemma is_objectE: "is_object x \<Longrightarrow> (\<And>kvs. x = Some (JObj kvs) \<Longrightarrow> P) \<Longrightarrow> P"
  by (cases x rule: is_object.cases) simp_all

lemma add_dynamb_wf:
  assumes "map_of kvs ''dynamb'' = Some d" "wf_dynamb (Some d)"
  shows "\<exists>t u. add_dynamb (JObj kvs) ((''beacon'', b) # data) 
     = Inr (obj_set (obj_set ((''beacon'', b) # data) ''temperature'' t) ''uptime'' u)"
proof -
  from assms(2) obtain dk n where d: "d = JObj dk" and u: "map_of dk ''uptime'' = Some (JNum n)"
    by (cases "Some d" rule: wf_dynamb.cases) (auto split: option.splits json.splits)
  show ?thesis
    by (simp add: add_dynamb_def path2_def seq_Inr obj_get_def assms(1) d u formatUptime_def) blast
qed

lemma map_of_update_other:
  "k \<noteq> k' \<Longrightarrow>
     map_of (map (\<lambda>(a, b). if a = k then (a, v) else (a, b)) kvs) k' = map_of kvs k'"
  by (induction kvs) auto

lemma obj_get_obj_set_other: "k \<noteq> k' \<Longrightarrow> obj_get (obj_set kvs k v) k' = obj_get kvs k'"
  by (auto simp add: obj_set_def obj_get_def map_of_update_other map_add_def split: option.splits)

lemma extract_wf_entry:
  assumes "wf_entry e"
  shows "\<exists>d. extractBeaconData e = Inr d \<and>
             obj_get d ''beacon'' = JStr (toUpperCase (entry_key e))"
proof -
  from assms obtain k kvs where e: "e = JObj [(k, JObj kvs)]"
    and g: "is_object (map_of kvs ''nearestGatewayData'')"
    and l: "is_object (map_of kvs ''location'')"
    and dy: "wf_dynamb (map_of kvs ''dynamb'')"
    by (cases e rule: wf_entry.cases) simp_all
  from g obtain gk where gk: "map_of kvs ''nearestGatewayData'' = Some (JObj gk)"
    by (rule is_objectE)
  from l obtain lk where lk: "map_of kvs ''location'' = Some (JObj lk)"
    by (rule is_objectE)
  show ?thesis
  proof (cases "map_of kvs ''dynamb''")
    case None
    then show ?thesis
      by (simp add: e extract_cons path2_object [OF gk] path2_object [OF lk] seq_Inr obj_get_def)
  next
    case (Some d)
    with dy have "wf_dynamb (Some d)" by simp
    from add_dynamb_wf [OF Some this] obtain t u where
      "add_dynamb (JObj kvs)
         [(''beacon'', JStr (toUpperCase k)),
          (''gateway'', obj_get gk ''device''),
          (''latitude'', obj_get lk ''latitude''),
          (''longitude'', obj_get lk ''longitude''),
          (''sapLocation'', obj_get lk ''sapLocation''),
          (''tempCondition_Low'', obj_get lk ''tempCondition_Low''),
          (''tempCondition_High'', obj_get lk ''tempCondition_High'')] =
       Inr (obj_set (obj_set
         [(''beacon'', JStr (toUpperCase k)),
          (''gateway'', obj_get gk ''device''),
          (''latitude'', obj_get lk ''latitude''),
          (''longitude'', obj_get lk ''longitude''),
          (''sapLocation'', obj_get lk ''sapLocation''),
          (''tempCondition_Low'', obj_get lk ''tempCondition_Low''),
          (''tempCondition_High'', obj_get lk ''tempCondition_High'')] ''temperature'' t) ''uptime'' u)"
      by blast
    then show ?thesis
      by (simp add: e extract_cons path2_object [OF gk] path2_object [OF lk] seq_Inr Some
          obj_get_obj_set_other) (simp add: obj_get_def)
  qed
qed

lemma extractAll_wf:
  "list_all wf_entry bs \<Longrightarrow>
     \<exists>recs. extractAll bs = Inr recs \<and>
       map (\<lambda>d. obj_get d ''beacon'') recs = map (\<lambda>e. JStr (toUpperCase (entry_key e))) bs"
proof (induction bs)
  case Nil
  then show ?case by simp
next
  case (Cons b bs)
  then obtain recs where r: "extractAll bs = Inr recs"
    "map (\<lambda>d. obj_get d ''beacon'') recs = map (\<lambda>e. JStr (toUpperCase (entry_key e))) bs"
    by auto
  from Cons.prems obtain d where d: "extractBeaconData b = Inr d"
    "obj_get d ''beacon'' = JStr (toUpperCase (entry_key b))"
    using extract_wf_entry [of b] by auto
  show ?case
    by (simp add: r d seq_Inr)
qed

lemma validate_beacons: "response_beacons r = Some bs \<Longrightarrow> validate r = Inr (Some bs)"
  by (auto simp: response_beacons_def validate_def seq_Inr obj_get_def
      split: json.splits option.splits)

section \<open>What the sinks add to the trace\<close>

lemma emit_simps [simp]:
  "trace (emit e w) = trace w @ [e]"
  "listeners (emit e w) = listeners w"
  "ticks (emit e w) = ticks w"
  by (simp_all add: emit_def)

lemma publish_each_world:
  "publish_each en items w =
     w\<lparr>trace := trace w @ publishes en (ticks w) items, ticks := ticks w + length items\<rparr>"
proof (induction items arbitrary: w)
  case Nil
  then show ?case by (simp add: publishes_def)
next
  case (Cons item rest)
  show ?case
    by (simp add: Cons.IH getCurrentDateTime_def publishes_def emit_def)
qed

lemma sendToMqtt_world:
  "sendToMqtt en items w =
     (if mqtt_resolves en then Inr () else Inl MqttError,
      w\<lparr>trace := trace w @ mqtt_events en (ticks w) items,
        ticks := ticks w + mqtt_ticks en items\<rparr>)"
  by (cases "broker en")
     (simp_all add: sendToMqtt_def publish_each_world emit_def Let_def mqtt_events_def
       mqtt_ticks_def mqtt_resolves_def)

lemma sendToMongoDB_world:
  "ticks w = c + i \<Longrightarrow>
   sendToMongoDB en items i w =
     (case drop (length (accepted en i items)) (enumerate i items) of
        [] \<Rightarrow>
          (Inr (), w\<lparr>trace := trace w @ awaited_posts en c (accepted en i items),
                       ticks := ticks w + length items\<rparr>)
      | p # ps \<Rightarrow>
          (Inl AxiosError,
           w\<lparr>trace := trace w @ awaited_posts en c (accepted en i items) @ [post_request en c p],
             ticks := ticks w + length (accepted en i items) + 1\<rparr>))"
proof (induction items arbitrary: i w)
  case Nil
  then show ?case by (simp add: accepted_def awaited_posts_def)
next
  case (Cons item rest)
  show ?case
  proof (cases "post_ok en i")
    case True
    let ?w = "emit HttpPostDone (emit (HttpPost (dataToMongoDB (clock en (ticks w)) item))
                (w\<lparr>ticks := Suc (ticks w)\<rparr>))"
    have t: "ticks ?w = c + Suc i" using Cons.prems by simp
    have a: "accepted en i (item # rest) = (i, item) # accepted en (Suc i) rest"
      using True by (simp add: accepted_def)
    have step: "sendToMongoDB en (item # rest) i w = sendToMongoDB en rest (Suc i) ?w"
      using True by (simp add: getCurrentDateTime_def)
    have pr: "post_request en c (i, item) = HttpPost (dataToMongoDB (clock en (ticks w)) item)"
      using Cons.prems by (simp add: post_request_def)
    show ?thesis
      unfolding step Cons.IH [OF t] a
      by (cases "drop (length (accepted en (Suc i) rest)) (enumerate (Suc i) rest)")
         (simp_all add: pr awaited_posts_def emit_def)
  next
    case False
    then have a: "accepted en i (item # rest) = []"
      by (simp add: accepted_def)
    show ?thesis
      using False Cons.prems
      by (simp add: a getCurrentDateTime_def awaited_posts_def post_request_def emit_def)
  qed
qed

section \<open>Well-formed responses\<close>

text \<open>
  C4. For a well-formed upstream response with the beacon entries \<open>bs\<close>, the check lets
  the entries through and extraction returns exactly one record per entry, in order; the
  beacon identifier of each record is the single key of its entry in upper case.
\<close>

theorem collector_well_formed:
  assumes "wf_response r" "response_beacons r = Some bs"
  shows "\<exists>recs. validate r = Inr (Some bs) \<and> extractAll bs = Inr recs \<and>
           length recs = length bs \<and>
           map (\<lambda>d. obj_get d ''beacon'') recs = map (\<lambda>e. JStr (toUpperCase (entry_key e))) bs"
proof -
  from assms have "list_all wf_entry bs"
    by (simp add: wf_response_def)
  from extractAll_wf [OF this] obtain recs where r: "extractAll bs = Inr recs"
    "map (\<lambda>d. obj_get d ''beacon'') recs = map (\<lambda>e. JStr (toUpperCase (entry_key e))) bs"
    by blast
  from r(2) have "length recs = length bs"
    by (rule map_eq_imp_length_eq)
  with r validate_beacons [OF assms(2)] show ?thesis
    by blast
qed

lemma upper_simps:
  "toUpperCase ''ac233fa2'' = ''AC233FA2''" "toUpperCase ''bb01'' = ''BB01''"
  by (simp_all add: toUpperCase_def upper_char_def)

theorem collector_well_formed_witness:
  "wf_response (example_response [example_entry, example_entry_plain]) \<and>
   response_beacons (example_response [example_entry, example_entry_plain]) =
     Some [example_entry, example_entry_plain] \<and>
   (\<exists>recs. extractAll [example_entry, example_entry_plain] = Inr recs \<and>
      length recs = 2 \<and>
      map (\<lambda>d. obj_get d ''beacon'') recs = [JStr ''AC233FA2'', JStr ''BB01''])"
proof -
  have b: "response_beacons (example_response [example_entry, example_entry_plain]) =
     Some [example_entry, example_entry_plain]"
    by (simp add: response_beacons_def example_response_def)
  have w: "wf_response (example_response [example_entry, example_entry_plain])"
    by (simp add: wf_response_def b) (simp add: example_entry_def example_entry_plain_def)
  have k: "entry_key example_entry = ''ac233fa2''" "entry_key example_entry_plain = ''bb01''"
    by (simp_all add: example_entry_def example_entry_plain_def)
  from collector_well_formed [OF w b] show ?thesis
    using w b by (auto simp add: k upper_simps simp del: extractAll.simps)
qed

section \<open>Entries without live telemetry\<close>

text \<open>
  C7. For a beacon entry whose nested object has no \<^verbatim>\<open>dynamb\<close> member, the record that
  extraction returns has exactly the seven members beacon, gateway, latitude, longitude,
  sapLocation, tempCondition_Low and tempCondition_High: it has no temperature member and
  no uptime member, the beacon identifier is the uppercased key, and the other six hold
  what the entry has at the paths they are copied from.
\<close>

theorem no_dynamb_record:
  assumes "extractBeaconData (JObj ((k, JObj kvs) # rest)) = Inr d"
    and "map_of kvs ''dynamb'' = None"
  shows "map_of d ''temperature'' = None \<and> map_of d ''uptime'' = None \<and>
         map fst d = record_keys \<and>
         obj_get d ''beacon'' = JStr (toUpperCase k) \<and>
         path2 (JObj kvs) ''nearestGatewayData'' ''device'' = Inr (obj_get d ''gateway'') \<and>
         path2 (JObj kvs) ''location'' ''latitude'' = Inr (obj_get d ''latitude'') \<and>
         path2 (JObj kvs) ''location'' ''longitude'' = Inr (obj_get d ''longitude'') \<and>
         path2 (JObj kvs) ''location'' ''sapLocation'' = Inr (obj_get d ''sapLocation'') \<and>
         path2 (JObj kvs) ''location'' ''tempCondition_Low'' =
           Inr (obj_get d ''tempCondition_Low'') \<and>
         path2 (JObj kvs) ''location'' ''tempCondition_High'' =
           Inr (obj_get d ''tempCondition_High'')"
proof -
  from assms(1) obtain g la lo sl lw hg where
    p: "path2 (JObj kvs) ''nearestGatewayData'' ''device'' = Inr g"
       "path2 (JObj kvs) ''location'' ''latitude'' = Inr la"
       "path2 (JObj kvs) ''location'' ''longitude'' = Inr lo"
       "path2 (JObj kvs) ''location'' ''sapLocation'' = Inr sl"
       "path2 (JObj kvs) ''location'' ''tempCondition_Low'' = Inr lw"
       "path2 (JObj kvs) ''location'' ''tempCondition_High'' = Inr hg"
    unfolding extract_cons seq_Inr_iff by blast
  from assms have d: "d =
     [(''beacon'', JStr (toUpperCase k)), (''gateway'', g), (''latitude'', la),
      (''longitude'', lo), (''sapLocation'', sl), (''tempCondition_Low'', lw),
      (''tempCondition_High'', hg)]"
    by (simp add: extract_cons p seq_Inr)
  show ?thesis
    by (simp add: p) (simp add: d obj_get_def record_keys_def)
qed

theorem no_dynamb_record_witness:
  "extractBeaconData example_entry_plain = Inr example_record_plain \<and>
   map_of example_record_plain ''temperature'' = None \<and>
   map_of example_record_plain ''uptime'' = None \<and>
   map fst example_record_plain = record_keys \<and>
   obj_get example_record_plain ''beacon'' = JStr ''BB01'' \<and>
   obj_get example_record_plain ''gateway'' = JStr ''gw2''"
proof -
  have e: "extractBeaconData example_entry_plain = Inr example_record_plain"
    by (simp add: example_entry_plain_def extract_cons path2_def seq_Inr obj_get_def
        upper_simps example_record_plain_def)
  have g: "obj_get example_record_plain ''gateway'' = JStr ''gw2''"
    by (simp add: example_record_plain_def obj_get_def)
  from no_dynamb_record [OF e [unfolded example_entry_plain_def]] e g show ?thesis
    by (simp add: upper_simps)
qed

section \<open>What extraction throws, and the members of its records\<close>

lemma path2_error: "path2 v a b = Inl e \<Longrightarrow> e = TypeError"
  by (cases v; cases "obj_get (own_props v) a")
     (auto simp: path2_def seq_def split: sum.splits)

lemma object_keys_error: "object_keys v = Inl e \<Longrightarrow> e = TypeError"
  by (cases v) auto

lemma get_prop_error: "get_prop v k = Inl e \<Longrightarrow> e = TypeError"
  by (cases v) auto

lemma in_op_error: "in_op k v = Inl e \<Longrightarrow> e = TypeError"
  by (cases v) auto

lemma call_toUpperCase_error: "call_toUpperCase k = Inl e \<Longrightarrow> e = TypeError"
  by (cases k) (auto simp: call_toUpperCase_def)

lemma add_dynamb_error: "add_dynamb v data = Inl e \<Longrightarrow> e = TypeError \<or> e = NotEmbedded"
  by (auto simp: add_dynamb_def seq_Inl_iff dest: path2_error split: option.splits)

lemma extract_error:
  assumes "extractBeaconData e = Inl x"
  shows "x = TypeError \<or> x = NotEmbedded"
  using assms unfolding extractBeaconData_def Let_def seq_Inl_iff
  by (auto dest: object_keys_error get_prop_error call_toUpperCase_error path2_error
      in_op_error add_dynamb_error split: if_splits)

lemma add_dynamb_keys:
  assumes "add_dynamb v
     [(''beacon'', b), (''gateway'', g), (''latitude'', la), (''longitude'', lo),
      (''sapLocation'', sl), (''tempCondition_Low'', lw), (''tempCondition_High'', hg)] = Inr d"
  shows "map fst d = record_keys @ [''temperature'', ''uptime'']"
  using assms
  by (auto simp: add_dynamb_def seq_Inr_iff obj_set_def record_keys_def split: option.splits)

lemma extract_keys:
  assumes "extractBeaconData e = Inr d"
  shows "map fst d = record_keys \<or> map fst d = record_keys @ [''temperature'', ''uptime'']"
  using assms unfolding extractBeaconData_def Let_def seq_Inr_iff
  by (auto split: if_splits dest: add_dynamb_keys) (simp add: record_keys_def)

lemma extract_no_gatewayMac:
  assumes "extractBeaconData e = Inr d"
  shows "obj_get d ''gatewayMac'' = JUndefined"
proof -
  have "''gatewayMac'' \<notin> set (map fst d)"
    using extract_keys [OF assms] by (auto simp: record_keys_def)
  then have "map_of d ''gatewayMac'' = None"
    by (simp add: map_of_eq_None_iff)
  then show ?thesis
    by (simp add: obj_get_def)
qed

section \<open>The events of an invocation\<close>

lemma new_events_append: "trace w' = trace w @ evs \<Longrightarrow> new_events w w' = evs"
  by (simp add: new_events_def)

lemma fan_out_world:
  "fan_out en items w =
     (if mqtt_resolves en
      then (case pending_posts en items of
              [] \<Rightarrow>
                (Inr (),
                 w\<lparr>trace := trace w @ mqtt_events en (ticks w) items @
                              awaited_posts en (ticks w + mqtt_ticks en items)
                                (accepted en 0 items) @
                              [IoOn items],
                   listeners := listeners w @ [items],
                   ticks := ticks w + mqtt_ticks en items + length items\<rparr>)
            | p # ps \<Rightarrow>
                (Inl AxiosError,
                 w\<lparr>trace := trace w @ mqtt_events en (ticks w) items @
                              awaited_posts en (ticks w + mqtt_ticks en items)
                                (accepted en 0 items) @
                              [post_request en (ticks w + mqtt_ticks en items) p],
                   ticks := ticks w + mqtt_ticks en items +
                            length (accepted en 0 items) + 1\<rparr>))
      else (Inl MqttError,
            w\<lparr>trace := trace w @ mqtt_events en (ticks w) items,
              ticks := ticks w + mqtt_ticks en items\<rparr>))"
proof (cases "mqtt_resolves en")
  case False
  then show ?thesis
    by (simp add: fan_out_def sendToMqtt_world)
next
  case True
  let ?w1 = "w\<lparr>trace := trace w @ mqtt_events en (ticks w) items,
                ticks := ticks w + mqtt_ticks en items\<rparr>"
  have t: "ticks ?w1 = (ticks w + mqtt_ticks en items) + 0"
    by simp
  have m: "sendToMqtt en items w = (Inr (), ?w1)"
    using True by (simp add: sendToMqtt_world)
  note p = sendToMongoDB_world [OF t, of en items]
  show ?thesis
    unfolding fan_out_def m prod.case sum.case p
    using True
    by (cases "pending_posts en items")
       (simp_all add: pending_posts_def io_on_connection_def emit_def)
qed

lemma try_block_extracted:
  assumes "get_result en = Inr r" "validate r = Inr (Some bs)" "extractAll bs = Inr recs"
  shows "try_block en w = fan_out en recs (emit (LogExtracted recs) (emit HttpGet w))"
  using assms by (simp add: try_block_def Let_def)

lemma run_extracted:
  assumes "get_result en = Inr r" "validate r = Inr (Some bs)" "extractAll bs = Inr recs"
  shows "\<exists>w'. fetchDataAndSend en w = Some (Resolved, w') \<and>
           new_events w w' =
             [HttpGet, LogExtracted recs] @ mqtt_events en (ticks w) recs @
             (if mqtt_resolves en
              then persistence_events en (ticks w + mqtt_ticks en recs) recs
              else [LogError MqttError]) \<and>
           listeners w' =
             (if mqtt_resolves en \<and> pending_posts en recs = []
              then listeners w @ [recs] else listeners w)"
proof (cases "mqtt_resolves en")
  case False
  then show ?thesis
    by (simp add: fetchDataAndSend_def try_block_extracted [OF assms] fan_out_world
        new_events_def)
next
  case True
  then show ?thesis
    by (cases "pending_posts en recs")
       (simp_all add: fetchDataAndSend_def try_block_extracted [OF assms] fan_out_world
         new_events_def persistence_events_def)
qed

section \<open>Malformed responses\<close>

lemma digit_char_digit: "d < 10 \<Longrightarrow> digit_char d \<in> set ''0123456789''"
  unfolding digit_char_def by (rule nth_mem) simp

lemma nat_str_digits: "set (nat_str n) \<subseteq> set ''0123456789''"
proof (induction n rule: nat_str.induct)
  case (1 n)
  show ?case
  proof (cases "n < 10")
    case True
    then show ?thesis
      using digit_char_digit [of n] by (subst nat_str.simps) simp
  next
    case False
    have "n mod 10 < 10" by simp
    then have "digit_char (n mod 10) \<in> set ''0123456789''"
      by (rule digit_char_digit)
    with False 1 show ?thesis
      by (subst nat_str.simps) simp
  qed
qed

lemma index_keys_digits: "k \<in> set (index_keys n) \<Longrightarrow> set k \<subseteq> set ''0123456789''"
  using nat_str_digits by (auto simp: index_keys_def)

lemma index_lookup_named:
  assumes "\<not> set k \<subseteq> set ''0123456789''"
  shows "map_of (zip (index_keys n) xs) k = None"
proof -
  have "k \<notin> set (index_keys n)"
    using assms index_keys_digits by blast
  then have "k \<notin> fst ` set (zip (index_keys n) xs)"
    by (auto dest: set_zip_leftD)
  then show ?thesis
    by (simp add: map_of_eq_None_iff)
qed

lemma lookup_data: "map_of (zip (index_keys n) xs) ''data'' = None"
  by (rule index_lookup_named) simp

lemma lookup_beacons: "map_of (zip (index_keys n) xs) ''beacons'' = None"
  by (rule index_lookup_named) simp

lemma get_prop_beacons_malformed:
  assumes "truthy d" "\<forall>dd bs. d = JObj dd \<longrightarrow> map_of dd ''beacons'' \<noteq> Some (JArr bs)"
  shows "seq (get_prop d ''beacons'')
           (\<lambda>bs. case bs of JArr originalBeacons \<Rightarrow> Inr (Some originalBeacons) | _ \<Rightarrow> Inr None)
         = Inr None"
  using assms
  by (cases d) (auto simp: seq_Inr obj_get_def lookup_beacons split: option.splits json.splits)

lemma validate_malformed:
  assumes "response_beacons r = None"
  shows "validate r = Inr None \<or> validate r = Inl TypeError"
proof (cases r)
  case (JObj members)
  show ?thesis
  proof (cases "truthy (obj_get members ''data'')")
    case False
    then show ?thesis
      by (simp add: JObj validate_def seq_Inr)
  next
    case True
    have "\<forall>dd bs. obj_get members ''data'' = JObj dd \<longrightarrow> map_of dd ''beacons'' \<noteq> Some (JArr bs)"
      using assms
      by (auto simp: JObj response_beacons_def obj_get_def split: option.splits json.splits)
    from get_prop_beacons_malformed [OF True this] True show ?thesis
      by (simp add: JObj validate_def seq_Inr)
  qed
qed (simp_all add: validate_def seq_Inr seq_Inl obj_get_def lookup_data)

lemma try_block_not_validated:
  assumes "get_result en = Inr r" "validate r = Inr None"
  shows "fetchDataAndSend en w = Some (Resolved, emit LogNoBeacons (emit HttpGet w))"
  using assms by (simp add: fetchDataAndSend_def try_block_def Let_def)

lemma try_block_validate_throws:
  assumes "get_result en = Inr r" "validate r = Inl TypeError"
  shows "fetchDataAndSend en w = Some (Resolved, emit (LogError TypeError) (emit HttpGet w))"
  using assms by (simp add: fetchDataAndSend_def try_block_def Let_def)

text \<open>
  C6. When the body of the upstream response has no beacons array at \<^verbatim>\<open>data.beacons\<close>
  (the path is missing, or what is there is not an array), the invocation resolves, and
  all it does after the request is write one log line: the "no beacons" message, or the
  caught \<^verbatim>\<open>TypeError\<close> when the body itself is \<^verbatim>\<open>null\<close> or \<^verbatim>\<open>undefined\<close>. No record is
  extracted, no sink is called and no listener is registered.
\<close>

theorem malformed_response:
  assumes "get_result en = Inr r" "response_beacons r = None"
  shows "\<exists>w'. fetchDataAndSend en w = Some (Resolved, w') \<and>
           (new_events w w' = [HttpGet, LogNoBeacons] \<or>
            new_events w w' = [HttpGet, LogError TypeError]) \<and>
           listeners w' = listeners w"
  using validate_malformed [OF assms(2)]
  by (auto simp: try_block_not_validated [OF assms(1)] try_block_validate_throws [OF assms(1)]
      new_events_def)

lemma example_get [simp]:
  "get_result (example_env body) = Inr body" "broker (example_env body) = BrokerAccepts"
  "post_ok (example_env body) i" "clock (example_env body) n = ''2024-05-01 12:00:0'' @ nat_str n"
  by (simp_all add: example_env_def)

lemma initial_world_simps [simp]:
  "trace initial_world = []" "listeners initial_world = []" "ticks initial_world = 0"
  by (simp_all add: initial_world_def)

lemma extract_example: "extractBeaconData example_entry = Inr example_record"
proof -
  have u: "formatUptime (JNum 90061) = Some ''1 Tage, 1 Stunden, 1 Minuten, 1 Sekunden''"
    using formatUptime_nat [of 90061] by (simp add: uptime_text_def nat_str_1)
  show ?thesis
    by (simp add: example_entry_def extract_cons path2_def seq_Inr obj_get_def upper_simps
        add_dynamb_def u obj_set_def example_record_def)
qed

lemma validate_example: "validate (example_response bs) = Inr (Some bs)"
  by (simp add: validate_def example_response_def seq_Inr obj_get_def)

lemma response_beacons_example: "response_beacons (example_response bs) = Some bs"
  by (simp add: response_beacons_def example_response_def)

theorem malformed_response_witness:
  "response_beacons (JObj [(''data'', JObj [(''beacons'', JStr ''none'')])]) = None \<and>
   (\<exists>w'. fetchDataAndSend (example_env (JObj [(''data'', JObj [(''beacons'', JStr ''none'')])]))
           initial_world = Some (Resolved, w') \<and>
         new_events initial_world w' = [HttpGet, LogNoBeacons] \<and> listeners w' = [])"
proof -
  let ?r = "JObj [(''data'', JObj [(''beacons'', JStr ''none'')])]"
  have n: "response_beacons ?r = None"
    by (simp add: response_beacons_def)
  have v: "validate ?r = Inr None"
    by (simp add: validate_def seq_Inr obj_get_def)
  from malformed_response [OF example_get(1) n, of initial_world] obtain w' where
    w: "fetchDataAndSend (example_env ?r) initial_world = Some (Resolved, w')"
       "new_events initial_world w' = [HttpGet, LogNoBeacons] \<or>
        new_events initial_world w' = [HttpGet, LogError TypeError]"
       "listeners w' = listeners initial_world"
    by blast
  from w(1) have "w' = emit LogNoBeacons (emit HttpGet initial_world)"
    by (simp add: try_block_not_validated [OF example_get(1) v])
  then have "new_events initial_world w' = [HttpGet, LogNoBeacons]"
    by (simp add: new_events_def)
  with n w show ?thesis
    by simp
qed

section \<open>Entries that make extraction throw\<close>

lemma extractAll_error:
  "extractAll bs = Inl x \<Longrightarrow> x = TypeError \<or> x = NotEmbedded"
proof (induction bs arbitrary: x)
  case Nil
  then show ?case by simp
next
  case (Cons b bs)
  then show ?case
    by (auto simp: seq_Inl_iff dest: extract_error)
qed

lemma extractAll_member_throws:
  "e \<in> set bs \<Longrightarrow> extractBeaconData e = Inl x \<Longrightarrow> \<exists>y. extractAll bs = Inl y"
proof (induction bs)
  case Nil
  then show ?case by simp
next
  case (Cons b bs)
  show ?case
  proof (cases "extractBeaconData b")
    case (Inl y)
    then show ?thesis by (simp add: seq_Inl)
  next
    case (Inr d)
    with Cons obtain y where "extractAll bs = Inl y"
      by auto
    with Inr show ?thesis
      by (simp add: seq_Inr seq_Inl)
  qed
qed

lemma run_extraction_throws:
  assumes "get_result en = Inr r" "validate r = Inr (Some bs)" "extractAll bs = Inl TypeError"
  shows "fetchDataAndSend en w = Some (Resolved, emit (LogError TypeError) (emit HttpGet w))"
  using assms by (simp add: fetchDataAndSend_def try_block_def Let_def)

lemma run_not_embedded:
  assumes "get_result en = Inr r" "validate r = Inr (Some bs)" "extractAll bs = Inl NotEmbedded"
  shows "fetchDataAndSend en w = None"
  using assms by (simp add: fetchDataAndSend_def try_block_def Let_def)

lemma extract_lacks:
  assumes "map_of kvs ''nearestGatewayData'' = None \<or> map_of kvs ''location'' = None"
  shows "extractBeaconData (JObj ((k, JObj kvs) # rest)) = Inl TypeError"
proof (cases "path2 (JObj kvs) ''nearestGatewayData'' ''device''")
  case (Inl e)
  then show ?thesis
    using path2_error [OF Inl] by (simp add: extract_cons seq_Inl)
next
  case (Inr g)
  with assms have l: "map_of kvs ''location'' = None"
    by (auto simp: path2_missing)
  show ?thesis
    by (simp add: extract_cons Inr seq_Inr path2_missing [OF l] seq_Inl)
qed

lemma extract_later_keys:
  "extractBeaconData (JObj ((k, v) # rest)) = extractBeaconData (JObj [(k, v)])"
  by (simp add: extract_cons)

text \<open>
  C10. Extraction reads only the first key of an entry: the members after the first do
  not change its result. An entry with no key, and an entry whose nested object has no
  \<^verbatim>\<open>nearestGatewayData\<close> member or no \<^verbatim>\<open>location\<close> member, make it throw a
  \<^verbatim>\<open>TypeError\<close>. When extraction throws on any entry of the response, the invocation
  (as far as it stays inside the embedding) resolves having only logged the error after the
  request: no record is logged, published, posted or handed to a listener.
\<close>

theorem extraction_first_key_and_throws:
  "extractBeaconData (JObj ((k, v) # rest)) = extractBeaconData (JObj [(k, v)]) \<and>
   extractBeaconData (JObj []) = Inl TypeError \<and>
   (map_of kvs ''nearestGatewayData'' = None \<or> map_of kvs ''location'' = None \<longrightarrow>
      extractBeaconData (JObj ((k, JObj kvs) # rest)) = Inl TypeError) \<and>
   (get_result en = Inr r \<and> validate r = Inr (Some bs) \<and> e \<in> set bs \<and>
    extractBeaconData e = Inl TypeError \<and> fetchDataAndSend en w = Some (c, w') \<longrightarrow>
      c = Resolved \<and> new_events w w' = [HttpGet, LogError TypeError] \<and>
      listeners w' = listeners w)"
proof (intro conjI impI)
  show "extractBeaconData (JObj ((k, v) # rest)) = extractBeaconData (JObj [(k, v)])"
    by (rule extract_later_keys)
  show "extractBeaconData (JObj []) = Inl TypeError"
    by (rule extract_no_keys)
next
  assume "map_of kvs ''nearestGatewayData'' = None \<or> map_of kvs ''location'' = None"
  then show "extractBeaconData (JObj ((k, JObj kvs) # rest)) = Inl TypeError"
    by (rule extract_lacks)
next
  assume a: "get_result en = Inr r \<and> validate r = Inr (Some bs) \<and> e \<in> set bs \<and>
    extractBeaconData e = Inl TypeError \<and> fetchDataAndSend en w = Some (c, w')"
  then obtain y where y: "extractAll bs = Inl y"
    using extractAll_member_throws by blast
  from extractAll_error [OF y] a y have "extractAll bs = Inl TypeError"
    by (auto simp: run_not_embedded)
  with a have w': "c = Resolved" "w' = emit (LogError TypeError) (emit HttpGet w)"
    by (auto simp: run_extraction_throws)
  from w' show "c = Resolved" by simp
  from w' show "new_events w w' = [HttpGet, LogError TypeError]"
    by (simp add: new_events_def)
  from w' show "listeners w' = listeners w" by simp
qed

theorem extraction_first_key_and_throws_witness:
  "extractBeaconData (JObj [(''bb01'', JObj []), (''cc02'', JNull)]) = Inl TypeError \<and>
   JObj [] \<in> set [example_entry, JObj []] \<and>
   fetchDataAndSend (example_env (example_response [example_entry, JObj []])) initial_world =
     Some (Resolved, emit (LogError TypeError) (emit HttpGet initial_world)) \<and>
   new_events initial_world (emit (LogError TypeError) (emit HttpGet initial_world)) =
     [HttpGet, LogError TypeError]"
proof -
  let ?bs = "[example_entry, JObj []]"
  let ?w = "emit (LogError TypeError) (emit HttpGet initial_world)"
  have x: "extractAll ?bs = Inl TypeError"
    by (simp add: extract_example extract_no_keys seq_Inr seq_Inl)
  have f: "fetchDataAndSend (example_env (example_response ?bs)) initial_world =
      Some (Resolved, ?w)"
    by (rule run_extraction_throws [OF example_get(1) validate_example x])
  have m: "map_of ([] :: obj) ''nearestGatewayData'' = None" by simp
  from extraction_first_key_and_throws
    [of "''bb01''" "JObj []" "[(''cc02'', JNull)]" "[]"
        "example_env (example_response ?bs)" "example_response ?bs" ?bs "JObj []"
        initial_world Resolved ?w]
  show ?thesis
    using f m by (auto simp add: validate_example extract_no_keys)
qed

section \<open>The order of the fan-out\<close>

lemma extractAll_example: "extractAll [example_entry] = Inr [example_record]"
  by (simp add: extract_example seq_Inr)

lemma nat_str_small:
  "nat_str 0 = ''0''" "nat_str (Suc 0) = ''1''" "nat_str (Suc (Suc 0)) = ''2''"
  "nat_str (Suc (Suc (Suc 0))) = ''3''"
  by (simp_all add: nat_str.simps digit_char_def)

text \<open>
  C9. When the response validates and extraction succeeds, the events of the invocation
  after the request and the log of the records are, for each behaviour of the MQTT client:
  \<^item> the client connects and closes after the handler: the connection, one publish per
    record, the end of the client and its close, and only then the persistence loop;
  \<^item> the client closes before it has connected: the connection and the close, and then
    the persistence loop all the same, with nothing published and the client not ended;
  \<^item> the client raises an error, before or after it has connected: no persistence request
    and no listener, the error is logged.
  The persistence loop is, for each accepted request, the request followed by its
  completion, the next request being made only after it, and last either the registration
  of the connection listener, once every record has been posted, or the rejected request
  followed by the logged error. So the MQTT step is complete before the first persistence
  request in every case but the second.
\<close>

theorem fan_out_sequential:
  assumes "get_result en = Inr r" "validate r = Inr (Some bs)" "extractAll bs = Inr recs"
  shows "\<exists>w'. fetchDataAndSend en w = Some (Resolved, w') \<and>
           new_events w w' =
             [HttpGet, LogExtracted recs, MqttConnect] @
             (case broker en of
                BrokerAccepts \<Rightarrow>
                  publishes en (ticks w) recs @ [MqttEnd, MqttClosed] @
                  awaited_posts en (ticks w + length recs) (accepted en 0 recs) @
                  (case pending_posts en recs of
                     [] \<Rightarrow> [IoOn recs]
                   | p # ps \<Rightarrow>
                       [post_request en (ticks w + length recs) p, LogError AxiosError])
              | BrokerClosesEarly \<Rightarrow>
                  [MqttClosed] @
                  awaited_posts en (ticks w) (accepted en 0 recs) @
                  (case pending_posts en recs of
                     [] \<Rightarrow> [IoOn recs]
                   | p # ps \<Rightarrow> [post_request en (ticks w) p, LogError AxiosError])
              | BrokerErrors \<Rightarrow> [LogError MqttError]
              | BrokerErrorsLate \<Rightarrow>
                  publishes en (ticks w) recs @ [MqttEnd, LogError MqttError])"
  using run_extracted [OF assms, of w]
  by (cases "broker en")
     (auto simp: mqtt_events_def mqtt_ticks_def mqtt_resolves_def persistence_events_def)

theorem fan_out_sequential_witness:
  "\<exists>w'. fetchDataAndSend
          ((example_env (example_response [example_entry]))\<lparr>broker := BrokerClosesEarly\<rparr>)
          initial_world = Some (Resolved, w') \<and>
        new_events initial_world w' =
          [HttpGet,
           LogExtracted [example_record],
           MqttConnect,
           MqttClosed,
           HttpPost (dataToMongoDB ''2024-05-01 12:00:00'' example_record),
           HttpPostDone,
           IoOn [example_record]]"
proof -
  let ?en = "(example_env (example_response [example_entry]))\<lparr>broker := BrokerClosesEarly\<rparr>"
  have g: "get_result ?en = Inr (example_response [example_entry])"
    by simp
  have a: "accepted ?en 0 [example_record] = [(0, example_record)]"
    by (simp add: accepted_def)
  have p: "pending_posts ?en [example_record] = []"
    by (simp add: pending_posts_def a)
  from fan_out_sequential [OF g validate_example extractAll_example, of initial_world]
  show ?thesis
    by (simp add: a p nat_str_small awaited_posts_def post_request_def)
qed

section \<open>Zero beacon entries\<close>

text \<open>
  C1, as stated, fails: with an empty beacons array and a client that connects, the
  invocation opens the MQTT connection, ends and closes it, and registers the listener with
  the empty batch.
\<close>

theorem zero_beacons_counterexample:
  "run_events (example_env (example_response [])) initial_world =
     Some [HttpGet, LogExtracted [], MqttConnect, MqttEnd, MqttClosed, IoOn []] \<and>
   MqttConnect \<in> set [HttpGet, LogExtracted [], MqttConnect, MqttEnd, MqttClosed, IoOn []]"
proof -
  have x: "extractAll [] = Inr []" by simp
  from run_extracted [OF example_get(1) validate_example x, of initial_world]
  show ?thesis
    by (auto simp: run_events_def mqtt_events_def mqtt_resolves_def persistence_events_def
        publishes_def awaited_posts_def accepted_def pending_posts_def)
qed

text \<open>
  C1 (amended). For a response that validates and whose entries all extract, the fan-out
  step runs whatever the number of records: the MQTT connection is opened. With zero
  beacon entries nothing is published and no persistence request is made, whatever the
  MQTT client does: when the promise of the MQTT step resolves (the client is ended and
  closed at once, or closes before it has connected) the connection listener is registered
  with the empty batch; when it rejects, the error is logged.
\<close>

theorem zero_beacons_run:
  assumes "get_result en = Inr r" "response_beacons r = Some bs" "extractAll bs = Inr recs"
  shows "\<exists>w'. fetchDataAndSend en w = Some (Resolved, w') \<and>
           MqttConnect \<in> set (new_events w w') \<and>
           (bs = [] \<longrightarrow>
              new_events w w' =
                [HttpGet, LogExtracted [], MqttConnect] @
                (case broker en of
                   BrokerAccepts \<Rightarrow> [MqttEnd, MqttClosed, IoOn []]
                 | BrokerClosesEarly \<Rightarrow> [MqttClosed, IoOn []]
                 | BrokerErrors \<Rightarrow> [LogError MqttError]
                 | BrokerErrorsLate \<Rightarrow> [MqttEnd, LogError MqttError]))"
proof -
  from run_extracted [OF assms(1) validate_beacons [OF assms(2)] assms(3), of w]
  obtain w' where w: "fetchDataAndSend en w = Some (Resolved, w')"
    "new_events w w' =
       [HttpGet, LogExtracted recs] @ mqtt_events en (ticks w) recs @
       (if mqtt_resolves en
        then persistence_events en (ticks w + mqtt_ticks en recs) recs
        else [LogError MqttError])"
    by blast
  have c: "MqttConnect \<in> set (new_events w w')"
    by (cases "broker en") (simp_all add: w(2) mqtt_events_def)
  have z: "new_events w w' =
      [HttpGet, LogExtracted [], MqttConnect] @
      (case broker en of
         BrokerAccepts \<Rightarrow> [MqttEnd, MqttClosed, IoOn []]
       | BrokerClosesEarly \<Rightarrow> [MqttClosed, IoOn []]
       | BrokerErrors \<Rightarrow> [LogError MqttError]
       | BrokerErrorsLate \<Rightarrow> [MqttEnd, LogError MqttError])"
    if "bs = []"
  proof -
    from that assms(3) have "recs = []" by simp
    then show ?thesis
      by (cases "broker en")
         (simp_all add: w(2) mqtt_events_def mqtt_resolves_def persistence_events_def
           publishes_def awaited_posts_def accepted_def pending_posts_def)
  qed
  from w(1) c z show ?thesis by blast
qed

theorem zero_beacons_run_witness:
  "response_beacons (example_response []) = Some [] \<and> extractAll [] = Inr [] \<and>
   (\<exists>w'. fetchDataAndSend (example_env (example_response [])) initial_world =
            Some (Resolved, w') \<and>
         new_events initial_world w' =
           [HttpGet, LogExtracted [], MqttConnect, MqttEnd, MqttClosed, IoOn []])"
proof -
  have x: "extractAll [] = Inr []" by simp
  from zero_beacons_run [OF example_get(1) response_beacons_example x, of initial_world]
  show ?thesis
    by (auto simp: response_beacons_example)
qed

section \<open>The subscriber channel\<close>

lemma broadcasts_append: "broadcasts (xs @ ys) = broadcasts xs @ broadcasts ys"
  by (induction xs rule: broadcasts.induct) simp_all

lemma broadcasts_publishes: "broadcasts (publishes en t items) = []"
  unfolding publishes_def by (induction items arbitrary: t) simp_all

lemma broadcasts_awaited: "broadcasts (awaited_posts en c ps) = []"
  unfolding awaited_posts_def by (induction ps) (auto simp: post_request_def)

lemma broadcasts_mqtt: "broadcasts (mqtt_events en t items) = []"
  by (cases "broker en")
     (simp_all add: mqtt_events_def broadcasts_append broadcasts_publishes)

lemma broadcasts_persistence: "broadcasts (persistence_events en c items) = []"
  by (cases "pending_posts en items")
     (auto simp: persistence_events_def broadcasts_append broadcasts_awaited post_request_def)

lemma run_failed_request:
  assumes "get_result en = Inl e" "fetchDataAndSend en w = Some (c, w')"
  shows "c = Resolved \<and> w' = emit (LogError e) (emit HttpGet w)"
  using assms by (cases e) (simp_all add: fetchDataAndSend_def try_block_def Let_def)

lemma beacons_case_no_error:
  "(case bs of JArr originalBeacons \<Rightarrow> Inr (Some originalBeacons) | _ \<Rightarrow> Inr None) \<noteq> Inl e"
  by (cases bs) simp_all

lemma validate_error: "validate r = Inl e \<Longrightarrow> e = TypeError"
  by (auto simp: validate_def seq_Inl_iff beacons_case_no_error dest: get_prop_error
      split: if_splits)

text \<open>
  What an invocation that stays inside the embedding leaves behind: it resolves, its
  events hold no broadcast, and the listeners it adds are exactly \<open>registered_batches\<close>.
\<close>

lemma run_summary:
  assumes "fetchDataAndSend en w = Some (c, w')"
  shows "c = Resolved \<and> broadcasts (new_events w w') = [] \<and>
         listeners w' = listeners w @ registered_batches en"
proof (cases "get_result en")
  case (Inl e)
  from run_failed_request [OF Inl assms] Inl show ?thesis
    by (simp add: new_events_def registered_batches_def)
next
  case (Inr r)
  show ?thesis
  proof (cases "validate r")
    case (Inl e)
    with validate_error [OF Inl] Inr assms show ?thesis
      by (auto simp: try_block_validate_throws new_events_def registered_batches_def)
  next
    case v: (Inr ob)
    show ?thesis
    proof (cases ob)
      case None
      with v Inr assms show ?thesis
        by (auto simp: try_block_not_validated new_events_def registered_batches_def)
    next
      case (Some bs)
      show ?thesis
      proof (cases "extractAll bs")
        case (Inl x)
        from extractAll_error [OF Inl] Inl v Inr Some assms show ?thesis
          by (auto simp: run_extraction_throws run_not_embedded new_events_def
              registered_batches_def)
      next
        case x: (Inr recs)
        from v Some have v': "validate r = Inr (Some bs)" by simp
        have reg: "registered_batches en =
            (if mqtt_resolves en \<and> pending_posts en recs = [] then [recs] else [])"
          by (simp add: registered_batches_def Inr v' x)
        from run_extracted [OF Inr v' x, of w] assms
        show ?thesis
          by (auto simp: reg broadcasts_append broadcasts_mqtt broadcasts_persistence)
      qed
    qed
  qed
qed

lemma registered_batches_some:
  assumes "get_result en = Inr r" "validate r = Inr (Some bs)" "extractAll bs = Inr recs"
    "mqtt_resolves en" "pending_posts en recs = []"
  shows "registered_batches en = [recs]"
  using assms by (simp add: registered_batches_def)

lemma registered_batches_none:
  assumes "\<not> (\<exists>r bs recs. get_result en = Inr r \<and> validate r = Inr (Some bs) \<and>
             extractAll bs = Inr recs \<and> mqtt_resolves en \<and> pending_posts en recs = [])"
  shows "registered_batches en = []"
  using assms
  by (auto simp: registered_batches_def split: sum.splits option.splits)

lemma fold_emit_trace:
  "trace (fold (\<lambda>batch. emit (IoEmit name batch)) bs w) = trace w @ map (IoEmit name) bs"
  by (induction bs arbitrary: w) simp_all

lemma subscriber_connects_events:
  "new_events w (subscriber_connects w) = map (IoEmit ''beaconData'') (listeners w)"
  by (simp add: subscriber_connects_def fold_emit_trace new_events_def)

lemma broadcasts_map_emit: "broadcasts (map (IoEmit name) bs) = bs"
  by (induction bs) simp_all

text \<open>
  C3, as stated, fails: an invocation that extracts one record and gets through both sinks
  broadcasts no batch at all.
\<close>

theorem broadcast_counterexample:
  "extractAll [example_entry] = Inr [example_record] \<and>
   map_option broadcasts
     (run_events (example_env (example_response [example_entry])) initial_world) = Some []"
proof -
  from run_extracted [OF example_get(1) validate_example extractAll_example, of initial_world]
  obtain w' where w:
    "fetchDataAndSend (example_env (example_response [example_entry])) initial_world =
       Some (Resolved, w')"
    by blast
  from run_summary [OF w] w extractAll_example show ?thesis
    by (simp add: run_events_def)
qed

text \<open>
  C3 (amended). An invocation broadcasts nothing itself. When the response validates,
  extraction succeeds, the promise of the MQTT step resolves and every persistence request
  succeeds, it registers exactly one connection listener, holding the full batch of
  records; in every other case it registers none. Each time a subscriber connects
  afterwards, every listener registered so far broadcasts the batch it holds once, to all
  subscribers: the batch reaches subscribers only on a later connection.
\<close>

theorem broadcast_on_connection:
  assumes "fetchDataAndSend en w = Some (c, w')"
  shows "broadcasts (new_events w w') = [] \<and>
         (\<forall>r bs recs. get_result en = Inr r \<and> validate r = Inr (Some bs) \<and>
             extractAll bs = Inr recs \<and> mqtt_resolves en \<and> pending_posts en recs = [] \<longrightarrow>
             listeners w' = listeners w @ [recs]) \<and>
         (\<not> (\<exists>r bs recs. get_result en = Inr r \<and> validate r = Inr (Some bs) \<and>
             extractAll bs = Inr recs \<and> mqtt_resolves en \<and> pending_posts en recs = []) \<longrightarrow>
             listeners w' = listeners w) \<and>
         new_events w' (subscriber_connects w') = map (IoEmit ''beaconData'') (listeners w') \<and>
         broadcasts (new_events w' (subscriber_connects w')) = listeners w'"
proof (intro conjI allI impI)
  from run_summary [OF assms] show "broadcasts (new_events w w') = []"
    by simp
  show "new_events w' (subscriber_connects w') = map (IoEmit ''beaconData'') (listeners w')"
    by (rule subscriber_connects_events)
  show "broadcasts (new_events w' (subscriber_connects w')) = listeners w'"
    by (simp add: subscriber_connects_events broadcasts_map_emit)
next
  fix r bs recs
  assume "get_result en = Inr r \<and> validate r = Inr (Some bs) \<and>
          extractAll bs = Inr recs \<and> mqtt_resolves en \<and> pending_posts en recs = []"
  then have "get_result en = Inr r" "validate r = Inr (Some bs)" "extractAll bs = Inr recs"
    "mqtt_resolves en" "pending_posts en recs = []"
    by simp_all
  then have "registered_batches en = [recs]"
    by (rule registered_batches_some)
  with run_summary [OF assms] show "listeners w' = listeners w @ [recs]"
    by simp
next
  assume "\<not> (\<exists>r bs recs. get_result en = Inr r \<and> validate r = Inr (Some bs) \<and>
             extractAll bs = Inr recs \<and> mqtt_resolves en \<and> pending_posts en recs = [])"
  then have "registered_batches en = []"
    by (rule registered_batches_none)
  with run_summary [OF assms] show "listeners w' = listeners w"
    by simp
qed

theorem broadcast_on_connection_witness:
  "\<exists>w'. fetchDataAndSend (example_env (example_response [example_entry])) initial_world =
          Some (Resolved, w') \<and>
        broadcasts (new_events initial_world w') = [] \<and>
        listeners w' = [[example_record]] \<and>
        new_events w' (subscriber_connects w') = [IoEmit ''beaconData'' [example_record]]"
proof -
  let ?en = "example_env (example_response [example_entry])"
  have p: "pending_posts ?en [example_record] = []"
    by (simp add: pending_posts_def accepted_def)
  have m: "mqtt_resolves ?en"
    by (simp add: mqtt_resolves_def)
  from run_extracted [OF example_get(1) validate_example extractAll_example, of initial_world]
  obtain w' where w: "fetchDataAndSend ?en initial_world = Some (Resolved, w')"
    by blast
  from broadcast_on_connection [OF w] extractAll_example p m have
    "broadcasts (new_events initial_world w') = []"
    "listeners w' = listeners initial_world @ [[example_record]]"
    "new_events w' (subscriber_connects w') = map (IoEmit ''beaconData'') (listeners w')"
    by (simp_all add: validate_example)
  with w show ?thesis
    by simp
qed

section \<open>The persistence payload\<close>

lemma sendToMongoDB_posts:
  "\<exists>evs. trace (snd (sendToMongoDB en items i w)) = trace w @ evs \<and>
         (\<forall>p. HttpPost p \<in> set evs \<longrightarrow>
            (\<exists>n item. item \<in> set items \<and> p = dataToMongoDB (clock en n) item))"
proof (induction items arbitrary: i w)
  case Nil
  then show ?case by simp
next
  case (Cons item rest)
  let ?p = "HttpPost (dataToMongoDB (clock en (ticks w)) item)"
  let ?w = "emit HttpPostDone (emit ?p (w\<lparr>ticks := Suc (ticks w)\<rparr>))"
  show ?case
  proof (cases "post_ok en i")
    case False
    then have "trace (snd (sendToMongoDB en (item # rest) i w)) = trace w @ [?p]"
      by (simp add: getCurrentDateTime_def)
    then show ?thesis by auto
  next
    case True
    then have step: "sendToMongoDB en (item # rest) i w = sendToMongoDB en rest (Suc i) ?w"
      by (simp add: getCurrentDateTime_def)
    from Cons.IH [of "Suc i" ?w] obtain evs where
      e: "trace (snd (sendToMongoDB en rest (Suc i) ?w)) = trace ?w @ evs"
         "\<forall>p. HttpPost p \<in> set evs \<longrightarrow>
            (\<exists>n item. item \<in> set rest \<and> p = dataToMongoDB (clock en n) item)"
      by blast
    have "trace (snd (sendToMongoDB en (item # rest) i w)) = trace w @ (?p # HttpPostDone # evs)"
      unfolding step e(1) by simp
    moreover have "\<forall>p. HttpPost p \<in> set (?p # HttpPostDone # evs) \<longrightarrow>
        (\<exists>n it. it \<in> set (item # rest) \<and> p = dataToMongoDB (clock en n) it)"
    proof (intro allI impI)
      fix q
      assume "HttpPost q \<in> set (?p # HttpPostDone # evs)"
      then consider "q = dataToMongoDB (clock en (ticks w)) item" | "HttpPost q \<in> set evs"
        by auto
      then show "\<exists>n it. it \<in> set (item # rest) \<and> q = dataToMongoDB (clock en n) it"
      proof cases
        case 1
        then show ?thesis
          by (intro exI [of _ "ticks w"] exI [of _ item]) simp
      next
        case 2
        with e(2) obtain n it where "it \<in> set rest" "q = dataToMongoDB (clock en n) it"
          by blast
        then show ?thesis
          by (intro exI [of _ n] exI [of _ it]) simp
      qed
    qed
    ultimately show ?thesis by blast
  qed
qed

lemma js_or_zero: "js_or v (JNum 0) \<noteq> JUndefined"
  by (cases v) (simp_all add: js_or_def)

text \<open>
  C8. Every persistence request made by the loop carries the payload built from one of
  the records and a clock reading; its \<^verbatim>\<open>events\<close> member is a list of exactly one
  element, holding that timestamp and the temperature. The temperature is never
  \<^verbatim>\<open>undefined\<close>, so the member is never absent from the request, and it is the number zero
  when the record has no temperature member (or a falsy one).
\<close>

theorem persistence_payload:
  assumes "HttpPost p \<in> set (new_events w (snd (sendToMongoDB en items i w)))"
  shows "\<exists>n item. item \<in> set items \<and> p = dataToMongoDB (clock en n) item \<and>
           obj_get p ''events'' =
             JArr [JObj [(''timestamp'', JStr (clock en n)),
                         (''temperature'', js_or (obj_get item ''temperature'') (JNum 0))]] \<and>
           js_or (obj_get item ''temperature'') (JNum 0) \<noteq> JUndefined \<and>
           (map_of item ''temperature'' = None \<longrightarrow>
              js_or (obj_get item ''temperature'') (JNum 0) = JNum 0) \<and>
           (\<not> truthy (obj_get item ''temperature'') \<longrightarrow>
              js_or (obj_get item ''temperature'') (JNum 0) = JNum 0)"
proof -
  from sendToMongoDB_posts [of en items i w] obtain evs where
    e: "trace (snd (sendToMongoDB en items i w)) = trace w @ evs"
       "\<forall>p. HttpPost p \<in> set evs \<longrightarrow>
          (\<exists>n item. item \<in> set items \<and> p = dataToMongoDB (clock en n) item)"
    by blast
  from e(1) have "new_events w (snd (sendToMongoDB en items i w)) = evs"
    by (rule new_events_append)
  with assms e(2) obtain n item where
    i: "item \<in> set items" "p = dataToMongoDB (clock en n) item"
    by blast
  have ev: "obj_get p ''events'' =
      JArr [JObj [(''timestamp'', JStr (clock en n)),
                  (''temperature'', js_or (obj_get item ''temperature'') (JNum 0))]]"
    by (simp add: i(2) dataToMongoDB_def obj_get_def)
  have ab: "map_of item ''temperature'' = None \<longrightarrow>
      js_or (obj_get item ''temperature'') (JNum 0) = JNum 0"
    by (simp add: obj_get_def js_or_def)
  have fa: "\<not> truthy (obj_get item ''temperature'') \<longrightarrow>
      js_or (obj_get item ''temperature'') (JNum 0) = JNum 0"
    by (simp add: js_or_def)
  have nz: "js_or (obj_get item ''temperature'') (JNum 0) \<noteq> JUndefined"
    by (rule js_or_zero)
  from i ev ab fa nz show ?thesis
    by - (rule exI [of _ n], rule exI [of _ item], blast)
qed

theorem persistence_payload_witness:
  "HttpPost (dataToMongoDB ''2024-05-01 12:00:00'' example_record_plain)
     \<in> set (new_events initial_world
         (snd (sendToMongoDB (example_env JNull) [example_record_plain] 0 initial_world))) \<and>
   map_of example_record_plain ''temperature'' = None \<and>
   (\<exists>n. obj_get (dataToMongoDB ''2024-05-01 12:00:00'' example_record_plain) ''events'' =
      JArr [JObj [(''timestamp'', JStr (clock (example_env JNull) n)),
                  (''temperature'', JNum 0)]])"
proof -
  have n: "nat_str 0 = ''0''"
    by (simp add: nat_str.simps digit_char_def)
  have h: "HttpPost (dataToMongoDB ''2024-05-01 12:00:00'' example_record_plain)
     \<in> set (new_events initial_world
         (snd (sendToMongoDB (example_env JNull) [example_record_plain] 0 initial_world)))"
    by (simp add: getCurrentDateTime_def new_events_def n)
  have m: "map_of example_record_plain ''temperature'' = None"
    by (simp add: example_record_plain_def)
  from persistence_payload [OF h] m show ?thesis
    using h by auto
qed

section \<open>The MQTT topic\<close>

text \<open>
  C2. The topic is built from the \<^verbatim>\<open>gatewayMac\<close> member of the record, which
  extraction never sets (it sets \<^verbatim>\<open>gateway\<close>): for every record that extraction
  returns, the topic is \<^verbatim>\<open>beacon/undefined\<close>, whatever the gateway of the record is.
\<close>

theorem topic_ignores_gateway:
  assumes "extractBeaconData e = Inr d"
  shows "deviceTopic d = ''beacon/undefined''"
  by (simp add: deviceTopic_def extract_no_gatewayMac [OF assms])

theorem topic_ignores_gateway_witness:
  "extractBeaconData example_entry = Inr example_record \<and>
   obj_get example_record ''gateway'' = JStr ''gw1'' \<and>
   deviceTopic example_record = ''beacon/undefined'' \<and>
   deviceTopic example_record \<noteq> ''beacon/gw1''"
proof -
  have g: "obj_get example_record ''gateway'' = JStr ''gw1''"
    by (simp add: example_record_def obj_get_def)
  from topic_ignores_gateway [OF extract_example] extract_example g show ?thesis
    by simp
qed

end
